theory Spec2Isabelle
  imports Complex_Main "HOL-Library.AList" "HOL-Library.Sublist"
begin

section \<open>Python values\<close>

text \<open>
  The record sets are parsed JSON: every value below a feature is dynamically typed.
  Numbers are Python ints and floats; a float is modelled by its exact rational value
  (NaN and the infinities are not JSON and are left out). Strings are lists of
  characters with code points below 256. A dict keeps its insertion order, so it is an
  association list: \<open>map_of\<close> reads a key, \<open>AList.update\<close> writes one (in place when
  the key exists, at the end otherwise, as Python does).
\<close>

datatype pyval =
    PNone
  | PBool bool
  | PInt int
  | PFloat rat
  | PStr string
  | PList "pyval list"
  | PDict "(string \<times> pyval) list"

type_synonym pydict = "(string \<times> pyval) list"

datatype py_error =
    KeyError
  | AttributeError
  | TypeError
  | IndexError
  | ValueError
  | RuntimeError

text \<open>Truth value testing (\<open>if v:\<close>).\<close>

fun truthy :: "pyval \<Rightarrow> bool" where
  "truthy PNone = False"
| "truthy (PBool b) = b"
| "truthy (PInt i) = (i \<noteq> 0)"
| "truthy (PFloat r) = (r \<noteq> 0)"
| "truthy (PStr s) = (s \<noteq> [])"
| "truthy (PList xs) = (xs \<noteq> [])"
| "truthy (PDict kvs) = (kvs \<noteq> [])"

text \<open>Lists and dicts cannot be dict keys: hashing them raises TypeError.\<close>

fun hashable :: "pyval \<Rightarrow> bool" where
  "hashable (PList xs) = False"
| "hashable (PDict kvs) = False"
| "hashable v = True"

text \<open>
  Dict keys are compared with \<open>==\<close>: \<open>True == 1 == 1.0\<close>. \<open>key_norm\<close> picks one
  representative of each class of equal hashable values.
\<close>

fun key_norm :: "pyval \<Rightarrow> pyval" where
  "key_norm (PBool b) = PInt (if b then 1 else 0)"
| "key_norm (PFloat r) = (if of_int \<lfloor>r\<rfloor> = r then PInt \<lfloor>r\<rfloor> else PFloat r)"
| "key_norm v = v"

text \<open>\<open>d.get(k)\<close> and \<open>d.get(k, default)\<close> on a dict.\<close>

definition dict_get_default :: "pydict \<Rightarrow> string \<Rightarrow> pyval \<Rightarrow> pyval" where
  "dict_get_default d k dflt = (case map_of d k of None \<Rightarrow> dflt | Some v \<Rightarrow> v)"

definition dict_get :: "pydict \<Rightarrow> string \<Rightarrow> pyval" where
  "dict_get d k = dict_get_default d k PNone"

text \<open>Running a fallible step over a list, stopping at the first error.\<close>

fun mapE :: "('a \<Rightarrow> py_error + 'b) \<Rightarrow> 'a list \<Rightarrow> py_error + 'b list" where
  "mapE f [] = Inr []"
| "mapE f (x # xs) =
     (case f x of
        Inl e \<Rightarrow> Inl e
      | Inr y \<Rightarrow> (case mapE f xs of Inl e \<Rightarrow> Inl e | Inr ys \<Rightarrow> Inr (y # ys)))"

text \<open>
  A geometry collection: the \<open>features\<close> array and the optional \<open>crs\<close> member
  (\<open>None\<close> when the key is absent). A feature is a dict.
\<close>

record geojson =
  crs :: "pyval option"
  features :: "pydict list"

definition feature_collection :: "pydict list \<Rightarrow> geojson" where
  "feature_collection fs = \<lparr>crs = None, features = fs\<rparr>"

section \<open>Exact-attribute join: \<open>DataMerger.merge_by_id\<close>\<close>

text \<open>
  The secondary lookup maps a key value to the attributes of the last secondary record
  carrying it. Records whose key value is falsy are left out; an unhashable key value
  raises.
\<close>

fun secondary_lookup :: "pydict list \<Rightarrow> string \<Rightarrow> (pyval \<rightharpoonup> pydict) \<Rightarrow> py_error + (pyval \<rightharpoonup> pydict)" where
  "secondary_lookup [] secondary_id_field lk = Inr lk"
| "secondary_lookup (feature # rest) secondary_id_field lk =
     (case dict_get_default feature ''properties'' (PDict []) of
        PDict props \<Rightarrow>
          (let id_value = dict_get props secondary_id_field in
           if truthy id_value then
             (if hashable id_value
              then secondary_lookup rest secondary_id_field (lk(key_norm id_value \<mapsto> props))
              else Inl TypeError)
           else secondary_lookup rest secondary_id_field lk)
      | _ \<Rightarrow> Inl AttributeError)"

text \<open>
  The copy loops of the joins, \<open>for key, value in src.items(): if cond: props[key] = value\<close>,
  differ only in the condition.
\<close>

definition copy_items :: "(string \<Rightarrow> pyval \<Rightarrow> bool) \<Rightarrow> pydict \<Rightarrow> pydict \<Rightarrow> pydict" where
  "copy_items cond src props =
     fold (\<lambda>(key, v) p. if cond key v then AList.update key v p else p) src props"

text \<open>\<open>if key and value\<close>\<close>

definition key_and_value :: "string \<Rightarrow> pyval \<Rightarrow> bool" where
  "key_and_value key v = (key \<noteq> [] \<and> truthy v)"

definition merge_truthy :: "pydict \<Rightarrow> pydict \<Rightarrow> pydict" where
  "merge_truthy secondary_props props = copy_items key_and_value secondary_props props"

definition merge_by_id_feature :: "(pyval \<rightharpoonup> pydict) \<Rightarrow> string \<Rightarrow> pydict \<Rightarrow> py_error + pydict" where
  "merge_by_id_feature lk primary_id_field feature =
     (case dict_get_default feature ''properties'' (PDict []) of
        PDict props \<Rightarrow>
          (let primary_id = dict_get props primary_id_field in
           if truthy primary_id then
             (if hashable primary_id then
                Inr [(''type'', PStr ''Feature''),
                     (''geometry'', dict_get feature ''geometry''),
                     (''properties'', PDict
                        (case lk (key_norm primary_id) of
                           Some secondary_props \<Rightarrow> merge_truthy secondary_props props
                         | None \<Rightarrow> props))]
              else Inl TypeError)
           else
             Inr [(''type'', PStr ''Feature''),
                  (''geometry'', dict_get feature ''geometry''),
                  (''properties'', PDict props)])
      | _ \<Rightarrow> Inl AttributeError)"

definition merge_by_id :: "geojson \<Rightarrow> geojson \<Rightarrow> string \<Rightarrow> string \<Rightarrow> py_error + geojson" where
  "merge_by_id primary_data secondary_data primary_id_field secondary_id_field =
     (case secondary_lookup (features secondary_data) secondary_id_field Map.empty of
        Inl e \<Rightarrow> Inl e
      | Inr lk \<Rightarrow>
          (case mapE (merge_by_id_feature lk primary_id_field) (features primary_data) of
             Inl e \<Rightarrow> Inl e
           | Inr merged_features \<Rightarrow> Inr (feature_collection merged_features)))"


section \<open>Python strings\<close>

text \<open>
  \<open>str.isspace\<close> on the code points below 256: tab to carriage return, the four
  separators 28 to 31, the space, NEL (133) and the no-break space (160). The same set is
  what \<open>\s\<close> matches in a \<open>str\<close> pattern.
\<close>

definition py_isspace :: "char \<Rightarrow> bool" where
  "py_isspace c =
     (let n = (of_char c :: nat) in (9 \<le> n \<and> n \<le> 13) \<or> (28 \<le> n \<and> n \<le> 32) \<or> n = 133 \<or> n = 160)"

text \<open>\<open>s.strip()\<close> and \<open>s.strip(chars)\<close>: both ends, any character of the set.\<close>

definition strip_where :: "(char \<Rightarrow> bool) \<Rightarrow> string \<Rightarrow> string" where
  "strip_where P s = rev (dropWhile P (rev (dropWhile P s)))"

definition py_strip :: "string \<Rightarrow> string" where
  "py_strip s = strip_where py_isspace s"


text \<open>\<open>s.lower()\<close>: A to Z, and the Latin-1 capitals 192 to 222 without the sign 215.\<close>

definition lower_char :: "char \<Rightarrow> char" where
  "lower_char c =
     (let n = (of_char c :: nat) in
      if (65 \<le> n \<and> n \<le> 90) \<or> (192 \<le> n \<and> n \<le> 222 \<and> n \<noteq> 215) then char_of (n + 32) else c)"

definition py_lower :: "string \<Rightarrow> string" where
  "py_lower s = map lower_char s"

text \<open>\<open>str(i)\<close> of an int, and \<open>s.zfill(width)\<close>, which pads after a sign.\<close>

definition digit_char :: "nat \<Rightarrow> char" where
  "digit_char d = ''0123456789'' ! d"

fun str_nat :: "nat \<Rightarrow> string" where
  "str_nat n = (if n < 10 then [digit_char n] else str_nat (n div 10) @ [digit_char (n mod 10)])"

declare str_nat.simps [simp del]

definition str_int :: "int \<Rightarrow> string" where
  "str_int i = (if i < 0 then CHR ''-'' # str_nat (nat (- i)) else str_nat (nat i))"



text \<open>\<open>re.sub(r"\s+", "_", s)\<close>: every maximal run of whitespace becomes one underscore.\<close>

function collapse_ws :: "string \<Rightarrow> string" where
  "collapse_ws [] = []"
| "collapse_ws (c # cs) =
     (if py_isspace c then CHR ''_'' # collapse_ws (dropWhile py_isspace cs)
      else c # collapse_ws cs)"
  by pat_completeness auto
termination
  by (relation "measure length") (auto simp: length_dropWhile_le less_Suc_eq_le)

text \<open>
  \<open>v[key]\<close> with a string key, \<open>v[i]\<close> with an index, \<open>key in v\<close> with a string
  key, \<open>len(v)\<close> and iteration, on any value.
\<close>

fun py_getitem_str :: "pyval \<Rightarrow> string \<Rightarrow> py_error + pyval" where
  "py_getitem_str (PDict d) k = (case map_of d k of None \<Rightarrow> Inl KeyError | Some v \<Rightarrow> Inr v)"
| "py_getitem_str v k = Inl TypeError"

fun py_getitem_nat :: "pyval \<Rightarrow> nat \<Rightarrow> py_error + pyval" where
  "py_getitem_nat (PList xs) i = (if i < length xs then Inr (xs ! i) else Inl IndexError)"
| "py_getitem_nat (PStr s) i = (if i < length s then Inr (PStr [s ! i]) else Inl IndexError)"
| "py_getitem_nat (PDict d) i = Inl KeyError"
| "py_getitem_nat v i = Inl TypeError"

fun py_in_str :: "string \<Rightarrow> pyval \<Rightarrow> py_error + bool" where
  "py_in_str k (PDict d) = Inr (k \<in> fst ` set d)"
| "py_in_str k (PStr s) = Inr (sublist k s)"
| "py_in_str k (PList xs) = Inr (PStr k \<in> set xs)"
| "py_in_str k v = Inl TypeError"


text \<open>Arithmetic comparison reads a bool as 0 or 1; any other non-number raises.\<close>

fun num_of :: "pyval \<Rightarrow> rat option" where
  "num_of (PInt i) = Some (of_int i)"
| "num_of (PFloat r) = Some r"
| "num_of (PBool b) = Some (if b then 1 else 0)"
| "num_of v = None"

section \<open>Scraped-data merge: \<open>DataMerger.merge_scraped_data\<close>\<close>

text \<open>The scraped records are bare dicts; the lookup keeps the whole item.\<close>

fun scraped_lookup :: "pydict list \<Rightarrow> string \<Rightarrow> (pyval \<rightharpoonup> pydict) \<Rightarrow> py_error + (pyval \<rightharpoonup> pydict)" where
  "scraped_lookup [] merge_field lk = Inr lk"
| "scraped_lookup (item # rest) merge_field lk =
     (let merge_value = dict_get item merge_field in
      if truthy merge_value then
        (if hashable merge_value
         then scraped_lookup rest merge_field (lk(key_norm merge_value \<mapsto> item))
         else Inl TypeError)
      else scraped_lookup rest merge_field lk)"

text \<open>\<open>if key and value and key != merge_field\<close>\<close>

definition scraped_cond :: "string \<Rightarrow> string \<Rightarrow> pyval \<Rightarrow> bool" where
  "scraped_cond merge_field key v = (key \<noteq> [] \<and> truthy v \<and> key \<noteq> merge_field)"

definition merge_scraped_feature :: "(pyval \<rightharpoonup> pydict) \<Rightarrow> string \<Rightarrow> pydict \<Rightarrow> py_error + pydict" where
  "merge_scraped_feature lk merge_field feature =
     (case dict_get_default feature ''properties'' (PDict []) of
        PDict props \<Rightarrow>
          (let merge_value = dict_get props merge_field in
           if truthy merge_value then
             (if hashable merge_value then
                Inr [(''type'', PStr ''Feature''),
                     (''geometry'', dict_get feature ''geometry''),
                     (''properties'', PDict
                        (case lk (key_norm merge_value) of
                           Some scraped_item \<Rightarrow> copy_items (scraped_cond merge_field) scraped_item props
                         | None \<Rightarrow> props))]
              else Inl TypeError)
           else
             Inr [(''type'', PStr ''Feature''),
                  (''geometry'', dict_get feature ''geometry''),
                  (''properties'', PDict props)])
      | _ \<Rightarrow> Inl AttributeError)"

definition merge_scraped_data :: "geojson \<Rightarrow> pydict list \<Rightarrow> string \<Rightarrow> py_error + geojson" where
  "merge_scraped_data parcel_data scraped_data merge_field =
     (case scraped_lookup scraped_data merge_field Map.empty of
        Inl e \<Rightarrow> Inl e
      | Inr lk \<Rightarrow>
          (case mapE (merge_scraped_feature lk merge_field) (features parcel_data) of
             Inl e \<Rightarrow> Inl e
           | Inr merged_features \<Rightarrow> Inr (feature_collection merged_features)))"

section \<open>Structured-text extraction and the join on it: \<open>DataMerger.merge_by_pidn\<close>\<close>

text \<open>
  \<open>_extract_properties_from_description\<close>. The HTML parser is a library: \<open>soup_rows\<close>
  stands for it and gives, for the value passed as markup, the cell texts of each table
  row in document order (or the parser's error). Rows with exactly two cells set a key.
\<close>

definition row_entry :: "string list \<Rightarrow> (string \<times> pyval) option" where
  "row_entry cells =
     (case cells of
        [c0, c1] \<Rightarrow> Some (collapse_ws (py_lower (py_strip c0)), PStr (py_strip c1))
      | _ \<Rightarrow> None)"

definition extract_properties_from_description :: "(pyval \<Rightarrow> py_error + string list list) \<Rightarrow> pyval \<Rightarrow> py_error + pydict" where
  "extract_properties_from_description soup_rows html_string =
     (case soup_rows html_string of
        Inl e \<Rightarrow> Inl e
      | Inr rows \<Rightarrow>
          Inr (fold (\<lambda>cells properties.
                 case row_entry cells of
                   Some (key, v) \<Rightarrow> AList.update key v properties
                 | None \<Rightarrow> properties) rows []))"

text \<open>\<open>parsed_properties.get("pidn", "").strip()\<close>; the parsed values are strings.\<close>

definition pidn_of :: "pydict \<Rightarrow> py_error + string" where
  "pidn_of parsed_properties =
     (case dict_get_default parsed_properties ''pidn'' (PStr []) of
        PStr s \<Rightarrow> Inr (py_strip s)
      | _ \<Rightarrow> Inl AttributeError)"

fun pidn_lookup :: "(pyval \<Rightarrow> py_error + string list list) \<Rightarrow> pydict list \<Rightarrow> (string \<rightharpoonup> pydict) \<Rightarrow> py_error + (string \<rightharpoonup> pydict)" where
  "pidn_lookup soup_rows [] lk = Inr lk"
| "pidn_lookup soup_rows (feature # rest) lk =
     (case dict_get_default feature ''properties'' (PDict []) of
        PDict properties \<Rightarrow>
          (case extract_properties_from_description soup_rows
                  (dict_get_default properties ''description'' (PStr [])) of
             Inl e \<Rightarrow> Inl e
           | Inr parsed_properties \<Rightarrow>
               (case pidn_of parsed_properties of
                  Inl e \<Rightarrow> Inl e
                | Inr pidn \<Rightarrow>
                    if pidn \<noteq> [] then pidn_lookup soup_rows rest (lk(pidn \<mapsto> parsed_properties))
                    else pidn_lookup soup_rows rest lk))
      | _ \<Rightarrow> Inl AttributeError)"

definition merge_by_pidn_feature :: "(pyval \<Rightarrow> py_error + string list list) \<Rightarrow> (string \<rightharpoonup> pydict) \<Rightarrow> pydict \<Rightarrow> py_error + pydict" where
  "merge_by_pidn_feature soup_rows address_lookup feature =
     (case dict_get_default feature ''properties'' (PDict []) of
        PDict properties0 \<Rightarrow>
          (case extract_properties_from_description soup_rows
                  (dict_get_default properties0 ''description'' (PStr [])) of
             Inl e \<Rightarrow> Inl e
           | Inr parsed_properties \<Rightarrow>
               (let properties = copy_items key_and_value parsed_properties properties0 in
                case pidn_of parsed_properties of
                  Inl e \<Rightarrow> Inl e
                | Inr pidn \<Rightarrow>
                    Inr [(''type'', PStr ''Feature''),
                         (''id'', dict_get feature ''id''),
                         (''properties'', PDict
                            (if pidn \<noteq> [] then
                               (case address_lookup pidn of
                                  Some address_data \<Rightarrow> copy_items key_and_value address_data properties
                                | None \<Rightarrow> properties)
                             else properties)),
                         (''geometry'', dict_get feature ''geometry'')]))
      | _ \<Rightarrow> Inl AttributeError)"

definition merge_by_pidn :: "(pyval \<Rightarrow> py_error + string list list) \<Rightarrow> geojson \<Rightarrow> geojson \<Rightarrow> py_error + geojson" where
  "merge_by_pidn soup_rows parcel_data address_data =
     (case pidn_lookup soup_rows (features address_data) Map.empty of
        Inl e \<Rightarrow> Inl e
      | Inr address_lookup \<Rightarrow>
          (case mapE (merge_by_pidn_feature soup_rows address_lookup) (features parcel_data) of
             Inl e \<Rightarrow> Inl e
           | Inr updated_features \<Rightarrow> Inr (feature_collection updated_features)))"

section \<open>Cross-encoding join: \<open>DataMerger.join_address_to_parcel\<close>\<close>

text \<open>
  The two files are read by \<open>_load_json_any\<close> into lists of records; a record is either a
  feature, whose attributes are under \<open>properties\<close>, or a bare attribute dict:
  \<open>feature.get('properties', feature)\<close>. The key is read by subscription, which raises
  KeyError when the key is absent, and TypeError when the attributes are not a dict.
\<close>

definition record_props :: "pydict \<Rightarrow> pyval" where
  "record_props feature = dict_get_default feature ''properties'' (PDict feature)"

fun address_lookup_of :: "pydict list \<Rightarrow> string \<Rightarrow> (pyval \<rightharpoonup> pydict) \<Rightarrow> py_error + (pyval \<rightharpoonup> pydict)" where
  "address_lookup_of [] address_key lk = Inr lk"
| "address_lookup_of (feature # rest) address_key lk =
     (case record_props feature of
        PDict props \<Rightarrow>
          (case map_of props address_key of
             None \<Rightarrow> Inl KeyError
           | Some key \<Rightarrow>
               if hashable key then address_lookup_of rest address_key (lk(key_norm key \<mapsto> props))
               else Inl TypeError)
      | _ \<Rightarrow> Inl TypeError)"

text \<open>\<open>if k != address_key\<close>\<close>

definition not_address_key :: "string \<Rightarrow> string \<Rightarrow> pyval \<Rightarrow> bool" where
  "not_address_key address_key k v = (k \<noteq> address_key)"

text \<open>
  The attributes are updated in place. A feature gets them back under \<open>properties\<close>. A
  bare record is its own attribute dict; when the copied attributes give it a
  \<open>properties\<close> key, the assignment \<open>feature['properties'] = props\<close> makes it contain
  itself, which the second component reports and \<open>json.dump\<close> later refuses.
\<close>

definition join_feature :: "(pyval \<rightharpoonup> pydict) \<Rightarrow> string \<Rightarrow> string \<Rightarrow> pydict \<Rightarrow> py_error + (pydict \<times> bool)" where
  "join_feature address_lookup parcel_key address_key feature =
     (case record_props feature of
        PDict props0 \<Rightarrow>
          (case map_of props0 parcel_key of
             None \<Rightarrow> Inl KeyError
           | Some key \<Rightarrow>
               if hashable key then
                 (let props = (case address_lookup (key_norm key) of
                                 Some address_props \<Rightarrow>
                                   copy_items (not_address_key address_key) address_props props0
                               | None \<Rightarrow> props0)
                  in if ''properties'' \<in> fst ` set feature
                     then Inr (AList.update ''properties'' (PDict props) feature, False)
                     else Inr (props, ''properties'' \<in> fst ` set props))
               else Inl TypeError)
      | _ \<Rightarrow> Inl TypeError)"

text \<open>
  The two loops of the join. The attribute dicts of the parcel records are updated in
  place, so the result is the list of records as \<open>json.dump\<close> meets it; a record
  that contains itself makes \<open>json.dump\<close> raise ValueError (circular reference).
\<close>

definition join_records :: "pydict list \<Rightarrow> pydict list \<Rightarrow> string \<Rightarrow> string \<Rightarrow> py_error + pydict list" where
  "join_records parcel_features address_features parcel_key address_key =
     (case address_lookup_of address_features address_key Map.empty of
        Inl e \<Rightarrow> Inl e
      | Inr address_lookup \<Rightarrow>
          (case mapE (join_feature address_lookup parcel_key address_key) parcel_features of
             Inl e \<Rightarrow> Inl e
           | Inr updated \<Rightarrow>
               if \<exists>u \<in> set updated. snd u then Inl ValueError
               else Inr (map fst updated)))"

text \<open>
  The document written to \<open>output_path\<close>: a feature collection when the parcel file is
  a \<open>.geojson\<close>, the list of records otherwise. The function returns the path; the
  model returns the document.
\<close>

definition written_document :: "bool \<Rightarrow> pydict list \<Rightarrow> pyval" where
  "written_document parcel_is_geojson updated_features =
     (if parcel_is_geojson
      then PDict [(''type'', PStr ''FeatureCollection''),
                  (''features'', PList (map PDict updated_features))]
      else PList (map PDict updated_features))"

definition join_address_to_parcel :: "bool \<Rightarrow> pydict list \<Rightarrow> pydict list \<Rightarrow> string \<Rightarrow> string \<Rightarrow> py_error + pyval" where
  "join_address_to_parcel parcel_is_geojson parcel_features address_features parcel_key address_key =
     (case join_records parcel_features address_features parcel_key address_key of
        Inl e \<Rightarrow> Inl e
      | Inr updated_features \<Rightarrow> Inr (written_document parcel_is_geojson updated_features))"

text \<open>
  Record sets on which the strict lookup can fail only for want of the key: every
  record's attributes are a dict, and the key's value, where present, is hashable.
\<close>

definition well_keyed :: "string \<Rightarrow> pydict list \<Rightarrow> bool" where
  "well_keyed key records =
     list_all (\<lambda>feature.
        case record_props feature of
          PDict props \<Rightarrow> (case map_of props key of Some v \<Rightarrow> hashable v | None \<Rightarrow> True)
        | _ \<Rightarrow> False) records"

definition lacks_key :: "string \<Rightarrow> pydict \<Rightarrow> bool" where
  "lacks_key key feature =
     (case record_props feature of
        PDict props \<Rightarrow> map_of props key = None
      | _ \<Rightarrow> False)"

section \<open>Spatial join: \<open>DataMerger.spatial_join\<close>\<close>

text \<open>
  The geometry library is outside the repository. Its operations are the fields of a
  record over the library's geometry type \<open>'g\<close>: \<open>shape\<close> builds a geometry from a
  GeoJSON value or raises, \<open>wkt\<close> is its text form, \<open>contains\<close> and \<open>intersects\<close>
  are the two predicates, and \<open>query geoms g\<close> is \<open>STRtree(geoms).query(g)\<close>, the
  candidates in the order the index yields them. A candidate that is not a geometry
  object is skipped by the \<open>isinstance\<close> test.
\<close>

datatype 'g candidate = Geometry 'g | NotGeometry

record 'g shapely =
  shape :: "pyval \<Rightarrow> py_error + 'g"
  wkt :: "'g \<Rightarrow> string"
  contains :: "'g \<Rightarrow> 'g \<Rightarrow> bool"
  intersects :: "'g \<Rightarrow> 'g \<Rightarrow> bool"
  query :: "'g list \<Rightarrow> 'g \<Rightarrow> 'g candidate list"

text \<open>
  The first loop. \<open>parcel_features\<close> holds references to features of \<open>parcel_data\<close>; a
  reference is the position of the feature in \<open>parcel_data["features"]\<close>. A feature
  whose geometry is missing, null or empty is not indexed.
\<close>

record 'g parcel_index =
  parcel_geoms :: "'g list"
  parcel_features :: "nat list"
  geom_wkt_to_idx :: "(string \<times> nat) list"

definition empty_index :: "'g parcel_index" where
  "empty_index = \<lparr>parcel_geoms = [], parcel_features = [], geom_wkt_to_idx = []\<rparr>"

fun index_parcels :: "'g shapely \<Rightarrow> pydict list \<Rightarrow> nat \<Rightarrow> 'g parcel_index \<Rightarrow> py_error + 'g parcel_index" where
  "index_parcels sh [] pos ix = Inr ix"
| "index_parcels sh (feature # rest) pos ix =
     (let geom_data = dict_get feature ''geometry'' in
      if \<not> truthy geom_data then index_parcels sh rest (Suc pos) ix
      else (case shape sh geom_data of
              Inl e \<Rightarrow> Inl e
            | Inr geom \<Rightarrow>
                index_parcels sh rest (Suc pos)
                  \<lparr>parcel_geoms = parcel_geoms ix @ [geom],
                   parcel_features = parcel_features ix @ [pos],
                   geom_wkt_to_idx = AList.update (wkt sh geom) (length (parcel_geoms ix)) (geom_wkt_to_idx ix)\<rparr>))"

text \<open>The inner loop over the candidates: the first one that passes the test wins.\<close>

fun find_match :: "'g shapely \<Rightarrow> (string \<times> nat) list \<Rightarrow> 'g \<Rightarrow> 'g candidate list \<Rightarrow> nat option" where
  "find_match sh wkt_to_idx addr_geom [] = None"
| "find_match sh wkt_to_idx addr_geom (NotGeometry # candidates) =
     find_match sh wkt_to_idx addr_geom candidates"
| "find_match sh wkt_to_idx addr_geom (Geometry candidate # candidates) =
     (case map_of wkt_to_idx (wkt sh candidate) of
        None \<Rightarrow> find_match sh wkt_to_idx addr_geom candidates
      | Some idx \<Rightarrow>
          if contains sh candidate addr_geom \<or> intersects sh candidate addr_geom
          then Some idx
          else find_match sh wkt_to_idx addr_geom candidates)"

text \<open>\<open>parcel_to_addresses[idx].append(addr_feature)\<close> on a \<open>defaultdict(list)\<close>.\<close>

definition append_address :: "(nat \<times> pydict list) list \<Rightarrow> nat \<Rightarrow> pydict \<Rightarrow> (nat \<times> pydict list) list" where
  "append_address parcel_to_addresses idx addr_feature =
     AList.update idx
       ((case map_of parcel_to_addresses idx of None \<Rightarrow> [] | Some addr_list \<Rightarrow> addr_list) @ [addr_feature])
       parcel_to_addresses"

text \<open>
  The second loop. \<open>addr_feature["geometry"]\<close> is a subscription, and the value goes
  to \<open>shape\<close> as it is.
\<close>

fun match_addresses :: "'g shapely \<Rightarrow> 'g parcel_index \<Rightarrow> pydict list \<Rightarrow>
    (nat \<times> pydict list) list \<times> pydict list \<Rightarrow> py_error + ((nat \<times> pydict list) list \<times> pydict list)" where
  "match_addresses sh ix [] st = Inr st"
| "match_addresses sh ix (addr_feature # rest) (parcel_to_addresses, unmatched_addresses) =
     (case map_of addr_feature ''geometry'' of
        None \<Rightarrow> Inl KeyError
      | Some geom_data \<Rightarrow>
          (case shape sh geom_data of
             Inl e \<Rightarrow> Inl e
           | Inr addr_geom \<Rightarrow>
               (case find_match sh (geom_wkt_to_idx ix) addr_geom (query sh (parcel_geoms ix) addr_geom) of
                  Some idx \<Rightarrow>
                    match_addresses sh ix rest
                      (append_address parcel_to_addresses idx addr_feature, unmatched_addresses)
                | None \<Rightarrow>
                    match_addresses sh ix rest
                      (parcel_to_addresses, unmatched_addresses @ [addr_feature]))))"

text \<open>
  The report of a parcel matched by several addresses reads the parcel's identifier and
  the addresses' identifiers; both reads can raise.
\<close>

definition props_get :: "pydict \<Rightarrow> py_error + pydict" where
  "props_get feature =
     (case map_of feature ''properties'' of
        None \<Rightarrow> Inl KeyError
      | Some (PDict props) \<Rightarrow> Inr props
      | Some _ \<Rightarrow> Inl AttributeError)"

definition multi_report :: "pydict \<Rightarrow> nat \<Rightarrow> pydict list \<Rightarrow> string \<Rightarrow> string \<Rightarrow> py_error + (pyval \<times> pyval list)" where
  "multi_report parcel_feature idx addr_list parcel_id_field address_id_field =
     (case props_get parcel_feature of
        Inl e \<Rightarrow> Inl e
      | Inr props \<Rightarrow>
          (let pid = dict_get_default props parcel_id_field
                       (dict_get_default props ''FID'' (PInt (int idx))) in
           case mapE (\<lambda>a. case props_get a of
                             Inl e \<Rightarrow> Inl e
                           | Inr ap \<Rightarrow> Inr (dict_get ap address_id_field)) addr_list of
             Inl e \<Rightarrow> Inl e
           | Inr addr_fids \<Rightarrow> Inr (pid, addr_fids)))"

text \<open>
  Writing the first matched address's attributes into the parcel's own attribute dict.
  The parcel's \<open>properties\<close> is subscripted only when an attribute is written.
\<close>

definition apply_address :: "pydict \<Rightarrow> pydict list \<Rightarrow> py_error + pydict" where
  "apply_address parcel_feature addr_list =
     (case addr_list of
        [] \<Rightarrow> Inl IndexError
      | first # _ \<Rightarrow>
          (case map_of first ''properties'' of
             None \<Rightarrow> Inl KeyError
           | Some (PDict addr_props) \<Rightarrow>
               if \<exists>(k, v) \<in> set addr_props. key_and_value k v then
                 (case map_of parcel_feature ''properties'' of
                    None \<Rightarrow> Inl KeyError
                  | Some (PDict props) \<Rightarrow>
                      Inr (AList.update ''properties'' (PDict (merge_truthy addr_props props)) parcel_feature)
                  | Some _ \<Rightarrow> Inl TypeError)
               else Inr parcel_feature
           | Some _ \<Rightarrow> Inl AttributeError))"

record join_stats =
  parcels_with_address :: nat
  total_matched_addresses :: nat
  unmatched_count :: nat
  multi_reports :: "(pyval \<times> pyval list) list"

text \<open>The third loop, over \<open>parcel_to_addresses.items()\<close> in insertion order.\<close>

fun apply_addresses :: "nat list \<Rightarrow> string \<Rightarrow> string \<Rightarrow> (nat \<times> pydict list) list \<Rightarrow>
    pydict list \<times> nat \<times> (pyval \<times> pyval list) list \<Rightarrow>
    py_error + (pydict list \<times> nat \<times> (pyval \<times> pyval list) list)" where
  "apply_addresses refs parcel_id_field address_id_field [] st = Inr st"
| "apply_addresses refs parcel_id_field address_id_field ((idx, addr_list) # rest) (feats, matched_total, reports) =
     (if idx < length refs \<and> refs ! idx < length feats then
        (let parcel_feature = feats ! (refs ! idx) in
         case (if 1 < length addr_list
               then (case multi_report parcel_feature idx addr_list parcel_id_field address_id_field of
                       Inl e \<Rightarrow> Inl e
                     | Inr r \<Rightarrow> Inr (reports @ [r]))
               else Inr reports) of
           Inl e \<Rightarrow> Inl e
         | Inr reports' \<Rightarrow>
             (case apply_address parcel_feature addr_list of
                Inl e \<Rightarrow> Inl e
              | Inr parcel_feature' \<Rightarrow>
                  apply_addresses refs parcel_id_field address_id_field rest
                    (feats[refs ! idx := parcel_feature'], matched_total + length addr_list, reports')))
      else Inl IndexError)"

definition spatial_join :: "'g shapely \<Rightarrow> geojson \<Rightarrow> geojson \<Rightarrow> string \<Rightarrow> string \<Rightarrow> py_error + (geojson \<times> join_stats)" where
  "spatial_join sh parcel_data address_data parcel_id_field address_id_field =
     (case index_parcels sh (features parcel_data) 0 empty_index of
        Inl e \<Rightarrow> Inl e
      | Inr ix \<Rightarrow>
          (case match_addresses sh ix (features address_data) ([], []) of
             Inl e \<Rightarrow> Inl e
           | Inr (parcel_to_addresses, unmatched_addresses) \<Rightarrow>
               (case apply_addresses (parcel_features ix) parcel_id_field address_id_field
                       parcel_to_addresses (features parcel_data, 0, []) of
                  Inl e \<Rightarrow> Inl e
                | Inr (feats, matched_total, reports) \<Rightarrow>
                    Inr (parcel_data\<lparr>features := feats\<rparr>,
                         \<lparr>parcels_with_address = length parcel_to_addresses,
                          total_matched_addresses = matched_total,
                          unmatched_count = length unmatched_addresses,
                          multi_reports = reports\<rparr>))))"

text \<open>
  The selection the specification describes: the first candidate that contains the
  address geometry, and the first that intersects it only when none contains it.
\<close>

definition qualifies :: "'g shapely \<Rightarrow> (string \<times> nat) list \<Rightarrow> ('g \<Rightarrow> bool) \<Rightarrow> 'g candidate \<Rightarrow> bool" where
  "qualifies sh wkt_to_idx P c =
     (case c of
        Geometry g \<Rightarrow> map_of wkt_to_idx (wkt sh g) \<noteq> None \<and> P g
      | NotGeometry \<Rightarrow> False)"

definition first_where :: "'g shapely \<Rightarrow> (string \<times> nat) list \<Rightarrow> ('g \<Rightarrow> bool) \<Rightarrow> 'g candidate list \<Rightarrow> nat option" where
  "first_where sh wkt_to_idx P candidates =
     (case List.find (qualifies sh wkt_to_idx P) candidates of
        Some (Geometry g) \<Rightarrow> map_of wkt_to_idx (wkt sh g)
      | _ \<Rightarrow> None)"

definition spec_containment_first :: "'g shapely \<Rightarrow> (string \<times> nat) list \<Rightarrow> 'g \<Rightarrow> 'g candidate list \<Rightarrow> nat option" where
  "spec_containment_first sh wkt_to_idx addr_geom candidates =
     (case first_where sh wkt_to_idx (\<lambda>c. contains sh c addr_geom) candidates of
        Some idx \<Rightarrow> Some idx
      | None \<Rightarrow> first_where sh wkt_to_idx (\<lambda>c. intersects sh c addr_geom) candidates)"

section \<open>Coordinate system detection: \<open>DataStandardizer.detect_coordinate_system\<close>\<close>

text \<open>
  The explicit \<open>crs\<close> member, when present:
  \<open>geojson_data['crs'].get('properties', {}).get('name', '')\<close>, then three membership
  tests on the name. \<open>None\<close> is the fall-through to the coordinate heuristic.
\<close>

definition crs_name_of :: "pyval \<Rightarrow> py_error + pyval" where
  "crs_name_of c =
     (case c of
        PDict d \<Rightarrow>
          (case dict_get_default d ''properties'' (PDict []) of
             PDict pd \<Rightarrow> Inr (dict_get_default pd ''name'' (PStr []))
           | _ \<Rightarrow> Inl AttributeError)
      | _ \<Rightarrow> Inl AttributeError)"

definition explicit_crs :: "pyval \<Rightarrow> py_error + string option" where
  "explicit_crs crs_name =
     (case py_in_str ''3738'' crs_name of
        Inl e \<Rightarrow> Inl e
      | Inr True \<Rightarrow> Inr (Some ''EPSG:3738'')
      | Inr False \<Rightarrow>
          (case py_in_str ''EPSG:3739'' crs_name of
             Inl e \<Rightarrow> Inl e
           | Inr True \<Rightarrow> Inr (Some ''EPSG:3739'')
           | Inr False \<Rightarrow>
               (case py_in_str ''EPSG:2677'' crs_name of
                  Inl e \<Rightarrow> Inl e
                | Inr True \<Rightarrow> Inr (Some ''EPSG:3739'')
                | Inr False \<Rightarrow>
                    (case py_in_str ''EPSG:4326'' crs_name of
                       Inl e \<Rightarrow> Inl e
                     | Inr True \<Rightarrow> Inr (Some ''EPSG:4326'')
                     | Inr False \<Rightarrow> Inr None))))"

text \<open>
  The test of the search loop: a truthy geometry that has a \<open>coordinates\<close> member with
  a truthy value.
\<close>

definition has_coordinates :: "pydict \<Rightarrow> py_error + bool" where
  "has_coordinates feature =
     (let geometry = dict_get feature ''geometry'' in
      if \<not> truthy geometry then Inr False
      else (case py_in_str ''coordinates'' geometry of
              Inl e \<Rightarrow> Inl e
            | Inr False \<Rightarrow> Inr False
            | Inr True \<Rightarrow>
                (case py_getitem_str geometry ''coordinates'' of
                   Inl e \<Rightarrow> Inl e
                 | Inr c \<Rightarrow> Inr (truthy c))))"

fun first_valid_feature :: "pydict list \<Rightarrow> py_error + pydict option" where
  "first_valid_feature [] = Inr None"
| "first_valid_feature (feature # rest) =
     (case has_coordinates feature of
        Inl e \<Rightarrow> Inl e
      | Inr True \<Rightarrow> Inr (Some feature)
      | Inr False \<Rightarrow> first_valid_feature rest)"

text \<open>
  The first point: \<open>coordinates[0][0]\<close> of a Polygon, \<open>coordinates[0][0][0]\<close> of a
  MultiPolygon, \<open>None\<close> for any other type.
\<close>

definition first_point :: "pyval \<Rightarrow> py_error + pyval" where
  "first_point geometry =
     (case py_getitem_str geometry ''type'' of
        Inl e \<Rightarrow> Inl e
      | Inr t \<Rightarrow>
          if t = PStr ''Polygon'' then
            (case py_getitem_str geometry ''coordinates'' of
               Inl e \<Rightarrow> Inl e
             | Inr c \<Rightarrow>
                 (case py_getitem_nat c 0 of
                    Inl e \<Rightarrow> Inl e
                  | Inr ring \<Rightarrow> py_getitem_nat ring 0))
          else if t = PStr ''MultiPolygon'' then
            (case py_getitem_str geometry ''coordinates'' of
               Inl e \<Rightarrow> Inl e
             | Inr c \<Rightarrow>
                 (case py_getitem_nat c 0 of
                    Inl e \<Rightarrow> Inl e
                  | Inr polygon \<Rightarrow>
                      (case py_getitem_nat polygon 0 of
                         Inl e \<Rightarrow> Inl e
                       | Inr ring \<Rightarrow> py_getitem_nat ring 0)))
          else Inr PNone)"

text \<open>
  \<open>if -180 <= x <= 180 and -90 <= y <= 90: WGS84; elif x > 1000000 or y > 1000000:
  state plane; else WGS84\<close>. The comparisons short-circuit, so \<open>y\<close> is compared only
  when the result depends on it; comparing a non-number raises TypeError.
\<close>

definition classify_point :: "pyval \<Rightarrow> pyval \<Rightarrow> py_error + string" where
  "classify_point x y =
     (case num_of x of
        None \<Rightarrow> Inl TypeError
      | Some xr \<Rightarrow>
          if - 180 \<le> xr \<and> xr \<le> 180 then
            (case num_of y of
               None \<Rightarrow> Inl TypeError
             | Some yr \<Rightarrow>
                 if - 90 \<le> yr \<and> yr \<le> 90 then Inr ''EPSG:4326''
                 else if xr > 1000000 \<or> yr > 1000000 then Inr ''EPSG:3739''
                 else Inr ''EPSG:4326'')
          else if xr > 1000000 then Inr ''EPSG:3739''
          else (case num_of y of
                  None \<Rightarrow> Inl TypeError
                | Some yr \<Rightarrow> if yr > 1000000 then Inr ''EPSG:3739'' else Inr ''EPSG:4326''))"

definition detect_from_coordinates :: "pydict list \<Rightarrow> py_error + string" where
  "detect_from_coordinates feats =
     (case first_valid_feature feats of
        Inl e \<Rightarrow> Inl e
      | Inr None \<Rightarrow> Inr ''EPSG:4326''
      | Inr (Some feature) \<Rightarrow>
          (case first_point (dict_get feature ''geometry'') of
             Inl e \<Rightarrow> Inl e
           | Inr coords \<Rightarrow>
               if \<not> truthy coords then Inr ''EPSG:4326''
               else (case py_getitem_nat coords 0 of
                       Inl e \<Rightarrow> Inl e
                     | Inr x \<Rightarrow>
                         (case py_getitem_nat coords 1 of
                            Inl e \<Rightarrow> Inl e
                          | Inr y \<Rightarrow> classify_point x y))))"

definition detect_coordinate_system :: "geojson \<Rightarrow> py_error + string" where
  "detect_coordinate_system geojson_data =
     (if features geojson_data = [] then Inr ''EPSG:4326''
      else (case crs geojson_data of
              None \<Rightarrow> detect_from_coordinates (features geojson_data)
            | Some c \<Rightarrow>
                (case crs_name_of c of
                   Inl e \<Rightarrow> Inl e
                 | Inr crs_name \<Rightarrow>
                     (case explicit_crs crs_name of
                        Inl e \<Rightarrow> Inl e
                      | Inr (Some code) \<Rightarrow> Inr code
                      | Inr None \<Rightarrow> detect_from_coordinates (features geojson_data)))))"

section \<open>Dropping the third ordinate: \<open>DataStandardizer.convert_to_2d_coordinates\<close>\<close>







section \<open>Field mapping: \<open>DataStandardizer.standardize_ownership\<close>\<close>














section \<open>Reading the properties off the results\<close>








section \<open>Example record sets\<close>

definition ex_primary :: geojson where
  "ex_primary = feature_collection
     [[(''type'', PStr ''Feature''), (''geometry'', PNone),
       (''properties'', PDict [(''PIN'', PStr ''A1''), (''owner'', PStr ''Ann'')])],
      [(''type'', PStr ''Feature''), (''geometry'', PNone),
       (''properties'', PDict [(''PIN'', PStr ''B2''), (''owner'', PStr ''Bob'')])]]"

definition ex_secondary :: geojson where
  "ex_secondary = feature_collection
     [[(''type'', PStr ''Feature''),
       (''properties'', PDict [(''PIN'', PStr ''A1''), (''owner'', PStr []), (''situs'', PStr ''12 Elm St'')])]]"

definition ex_merged :: geojson where
  "ex_merged = feature_collection
     [[(''type'', PStr ''Feature''), (''geometry'', PNone),
       (''properties'', PDict [(''PIN'', PStr ''A1''), (''owner'', PStr ''Ann''), (''situs'', PStr ''12 Elm St'')])],
      [(''type'', PStr ''Feature''), (''geometry'', PNone),
       (''properties'', PDict [(''PIN'', PStr ''B2''), (''owner'', PStr ''Bob'')])]]"

subsection \<open>A geometry library on points and axis-parallel rectangles\<close>

text \<open>
  An instance of the library record for the examples: integer points and rectangles
  with axis-parallel sides. A polygon is read as the bounding box of its outer ring, which
  for such a rectangle is the rectangle itself. A rectangle contains a point that lies
  strictly inside it and intersects a point that lies inside it or on its boundary; the
  index yields, in insertion order, the geometries whose bounding boxes meet the query's.
\<close>

datatype box = Pt int int | Rect int int int int

fun int_pair :: "pyval \<Rightarrow> (int \<times> int) option" where
  "int_pair (PList (PInt x # PInt y # rest)) = Some (x, y)"
| "int_pair v = None"

definition ring_box :: "pyval \<Rightarrow> py_error + box" where
  "ring_box ring =
     (case ring of
        PList pts \<Rightarrow>
          (case those (map int_pair pts) of
             Some ((x, y) # ps) \<Rightarrow>
               Inr (Rect (fold min (map fst ps) x) (fold min (map snd ps) y)
                         (fold max (map fst ps) x) (fold max (map snd ps) y))
           | _ \<Rightarrow> Inl ValueError)
      | _ \<Rightarrow> Inl ValueError)"

definition box_shape :: "pyval \<Rightarrow> py_error + box" where
  "box_shape v =
     (case v of
        PDict d \<Rightarrow>
          (case map_of d ''type'' of
             Some (PStr t) \<Rightarrow>
               if t = ''Point'' then
                 (case int_pair (dict_get d ''coordinates'') of
                    Some (x, y) \<Rightarrow> Inr (Pt x y)
                  | None \<Rightarrow> Inl ValueError)
               else if t = ''Polygon'' then
                 (case dict_get d ''coordinates'' of
                    PList (ring # holes) \<Rightarrow> ring_box ring
                  | _ \<Rightarrow> Inl ValueError)
               else Inl ValueError
           | _ \<Rightarrow> Inl AttributeError)
      | _ \<Rightarrow> Inl AttributeError)"

definition xy :: "int \<Rightarrow> int \<Rightarrow> string" where
  "xy x y = str_int x @ '' '' @ str_int y"

fun box_wkt :: "box \<Rightarrow> string" where
  "box_wkt (Pt x y) = ''POINT ('' @ xy x y @ '')''"
| "box_wkt (Rect x0 y0 x1 y1) =
     ''POLYGON (('' @ xy x0 y0 @ '', '' @ xy x1 y0 @ '', '' @ xy x1 y1 @ '', '' @ xy x0 y1 @ '', ''
        @ xy x0 y0 @ ''))''"

fun bounds :: "box \<Rightarrow> int \<times> int \<times> int \<times> int" where
  "bounds (Pt x y) = (x, y, x, y)"
| "bounds (Rect x0 y0 x1 y1) = (x0, y0, x1, y1)"

definition box_intersects :: "box \<Rightarrow> box \<Rightarrow> bool" where
  "box_intersects a b =
     (case (bounds a, bounds b) of
        ((ax0, ay0, ax1, ay1), (bx0, by0, bx1, by1)) \<Rightarrow>
          ax0 \<le> bx1 \<and> bx0 \<le> ax1 \<and> ay0 \<le> by1 \<and> by0 \<le> ay1)"

fun box_contains :: "box \<Rightarrow> box \<Rightarrow> bool" where
  "box_contains (Rect x0 y0 x1 y1) (Pt x y) = (x0 < x \<and> x < x1 \<and> y0 < y \<and> y < y1)"
| "box_contains (Rect x0 y0 x1 y1) (Rect a0 b0 a1 b1) = (x0 \<le> a0 \<and> a1 \<le> x1 \<and> y0 \<le> b0 \<and> b1 \<le> y1)"
| "box_contains (Pt x y) (Pt a b) = (x = a \<and> y = b)"
| "box_contains (Pt x y) (Rect a0 b0 a1 b1) = False"

definition box_query :: "box list \<Rightarrow> box \<Rightarrow> box candidate list" where
  "box_query geoms g = map Geometry (filter (\<lambda>c. box_intersects c g) geoms)"

definition box_shapely :: "box shapely" where
  "box_shapely = \<lparr>shape = box_shape, wkt = box_wkt, contains = box_contains,
     intersects = box_intersects, query = box_query\<rparr>"

definition point_geom :: "int \<Rightarrow> int \<Rightarrow> pyval" where
  "point_geom x y = PDict [(''type'', PStr ''Point''), (''coordinates'', PList [PInt x, PInt y])]"

definition rect_geom :: "int \<Rightarrow> int \<Rightarrow> int \<Rightarrow> int \<Rightarrow> pyval" where
  "rect_geom x0 y0 x1 y1 =
     PDict [(''type'', PStr ''Polygon''),
            (''coordinates'', PList [PList [PList [PInt x0, PInt y0], PList [PInt x1, PInt y0],
               PList [PInt x1, PInt y1], PList [PInt x0, PInt y1], PList [PInt x0, PInt y0]]])]"

text \<open>
  Two parcels: the square from (0,0) to (2,2) and the rectangle from (1,0) to (4,3). The
  address point (2,1) lies on the boundary of the first and inside the second.
\<close>

definition ex_parcels :: geojson where
  "ex_parcels = feature_collection
     [[(''type'', PStr ''Feature''), (''properties'', PDict [(''PIN'', PStr ''P1'')]),
       (''geometry'', rect_geom 0 0 2 2)],
      [(''type'', PStr ''Feature''), (''properties'', PDict [(''PIN'', PStr ''P2'')]),
       (''geometry'', rect_geom 1 0 4 3)]]"

definition ex_addresses :: geojson where
  "ex_addresses = feature_collection
     [[(''type'', PStr ''Feature''), (''properties'', PDict [(''FID'', PInt 7), (''situs'', PStr ''12 Elm St'')]),
       (''geometry'', point_geom 2 1)],
      [(''type'', PStr ''Feature''), (''properties'', PDict [(''FID'', PInt 8), (''situs'', PStr ''14 Elm St'')]),
       (''geometry'', point_geom 1 1)],
      [(''type'', PStr ''Feature''), (''properties'', PDict [(''FID'', PInt 9), (''situs'', PStr ''3 Oak Ave''), (''unit'', PStr [])]),
       (''geometry'', point_geom 3 2)],
      [(''type'', PStr ''Feature''), (''properties'', PDict [(''FID'', PInt 10), (''situs'', PStr ''1 Far Rd'')]),
       (''geometry'', point_geom 10 10)]]"

definition ex_index :: "box parcel_index" where
  "ex_index = \<lparr>parcel_geoms = [Rect 0 0 2 2, Rect 1 0 4 3], parcel_features = [0, 1],
     geom_wkt_to_idx = [(''POLYGON ((0 0, 2 0, 2 2, 0 2, 0 0))'', 0),
                        (''POLYGON ((1 0, 4 0, 4 3, 1 3, 1 0))'', 1)]\<rparr>"

text \<open>An address record with no \<open>geometry\<close> member, and one whose geometry is null.\<close>

definition ex_address_no_geometry :: geojson where
  "ex_address_no_geometry = feature_collection
     [[(''type'', PStr ''Feature''), (''properties'', PDict [(''FID'', PInt 8)])]]"

definition ex_address_null_geometry :: geojson where
  "ex_address_null_geometry = feature_collection
     [[(''type'', PStr ''Feature''), (''properties'', PDict [(''FID'', PInt 9)]), (''geometry'', PNone)]]"

text \<open>The parcels after the join with \<open>ex_addresses\<close>, and the summary of that run.\<close>

definition ex_joined :: geojson where
  "ex_joined = feature_collection
     [[(''type'', PStr ''Feature''),
       (''properties'', PDict [(''PIN'', PStr ''P1''), (''FID'', PInt 7), (''situs'', PStr ''12 Elm St'')]),
       (''geometry'', rect_geom 0 0 2 2)],
      [(''type'', PStr ''Feature''),
       (''properties'', PDict [(''PIN'', PStr ''P2''), (''FID'', PInt 9), (''situs'', PStr ''3 Oak Ave'')]),
       (''geometry'', rect_geom 1 0 4 3)]]"

definition ex_stats :: join_stats where
  "ex_stats = \<lparr>parcels_with_address = 2, total_matched_addresses = 3, unmatched_count = 1,
     multi_reports = [(PStr ''P1'', [PInt 7, PInt 8])]\<rparr>"

subsection \<open>Records for the key-based joins\<close>

definition ex_scraped :: "pydict list" where
  "ex_scraped =
     [[(''PIN'', PStr ''A1''), (''tax_id'', PStr ''T-17''), (''owner'', PStr [])],
      [(''PIN'', PStr ''Z9''), (''tax_id'', PStr ''T-99'')]]"

definition ex_scraped_merged :: geojson where
  "ex_scraped_merged = feature_collection
     [[(''type'', PStr ''Feature''), (''geometry'', PNone),
       (''properties'', PDict [(''PIN'', PStr ''A1''), (''owner'', PStr ''Ann''), (''tax_id'', PStr ''T-17'')])],
      [(''type'', PStr ''Feature''), (''geometry'', PNone),
       (''properties'', PDict [(''PIN'', PStr ''B2''), (''owner'', PStr ''Bob'')])]]"

text \<open>A markup parser that knows two descriptions, enough to run the structured-text join.\<close>

definition ex_soup_rows :: "pyval \<Rightarrow> py_error + string list list" where
  "ex_soup_rows html_string =
     (case html_string of
        PStr s \<Rightarrow>
          if s = ''<table><tr><th>PIDN</th><td> 22-1 </td></tr><tr><th>Owner Name</th><td>Jane Doe</td></tr></table>''
          then Inr [[''PIDN'', '' 22-1 ''], [''Owner Name'', ''Jane Doe'']]
          else if s = ''<table><tr><th>pidn</th><td>22-1</td></tr><tr><th>Street  Address</th><td>12 Elm St</td></tr></table>''
          then Inr [[''pidn'', ''22-1''], [''Street  Address'', ''12 Elm St'']]
          else Inr []
      | _ \<Rightarrow> Inl TypeError)"

definition ex_pidn_parcels :: geojson where
  "ex_pidn_parcels = feature_collection
     [[(''type'', PStr ''Feature''), (''id'', PInt 1),
       (''properties'', PDict [(''description'',
          PStr ''<table><tr><th>PIDN</th><td> 22-1 </td></tr><tr><th>Owner Name</th><td>Jane Doe</td></tr></table>'')]),
       (''geometry'', rect_geom 0 0 2 2)]]"

definition ex_pidn_addresses :: geojson where
  "ex_pidn_addresses = feature_collection
     [[(''type'', PStr ''Feature''),
       (''properties'', PDict [(''description'',
          PStr ''<table><tr><th>pidn</th><td>22-1</td></tr><tr><th>Street  Address</th><td>12 Elm St</td></tr></table>'')]),
       (''geometry'', point_geom 1 1)]]"

definition ex_pidn_merged :: geojson where
  "ex_pidn_merged = feature_collection
     [[(''type'', PStr ''Feature''), (''id'', PInt 1),
       (''properties'', PDict [(''description'',
          PStr ''<table><tr><th>PIDN</th><td> 22-1 </td></tr><tr><th>Owner Name</th><td>Jane Doe</td></tr></table>''),
          (''pidn'', PStr ''22-1''), (''owner_name'', PStr ''Jane Doe''), (''street_address'', PStr ''12 Elm St'')]),
       (''geometry'', rect_geom 0 0 2 2)]]"

text \<open>
  Parcel features keyed by \<open>RWACCT\<close> and bare address records keyed by \<open>Account #\<close>;
  the second list has a record without its key.
\<close>

definition ex_acct_parcels :: "pydict list" where
  "ex_acct_parcels =
     [[(''type'', PStr ''Feature''),
       (''properties'', PDict [(''RWACCT'', PStr ''R1''), (''Account #'', PStr ''kept'')]),
       (''geometry'', rect_geom 0 0 2 2)],
      [(''type'', PStr ''Feature''),
       (''properties'', PDict [(''RWACCT'', PStr ''R2'')]),
       (''geometry'', rect_geom 1 0 4 3)]]"

definition ex_acct_addresses :: "pydict list" where
  "ex_acct_addresses =
     [[(''Account #'', PStr ''R1''), (''Mailing'', PStr ''PO Box 1''), (''Unit'', PStr [])]]"

definition ex_acct_joined :: "pydict list" where
  "ex_acct_joined =
     [[(''type'', PStr ''Feature''),
       (''properties'', PDict [(''RWACCT'', PStr ''R1''), (''Account #'', PStr ''kept''),
          (''Mailing'', PStr ''PO Box 1''), (''Unit'', PStr [])]),
       (''geometry'', rect_geom 0 0 2 2)],
      [(''type'', PStr ''Feature''),
       (''properties'', PDict [(''RWACCT'', PStr ''R2'')]),
       (''geometry'', rect_geom 1 0 4 3)]]"

definition ex_acct_addresses_no_key :: "pydict list" where
  "ex_acct_addresses_no_key =
     [[(''Account #'', PStr ''R1''), (''Mailing'', PStr ''PO Box 1'')],
      [(''Mailing'', PStr ''PO Box 2'')]]"

subsection \<open>Records for the standardization\<close>

text \<open>
  Collections without a \<open>crs\<close> member: a polygon that starts far west of the origin,
  a point with two large ordinates, a polygon in state-plane range and one in degrees.
\<close>

definition polygon_at :: "int \<Rightarrow> int \<Rightarrow> geojson" where
  "polygon_at x y = feature_collection
     [[(''type'', PStr ''Feature''), (''properties'', PDict []), (''geometry'', PNone)],
      [(''type'', PStr ''Feature''), (''properties'', PDict []),
       (''geometry'', PDict [(''type'', PStr ''Polygon''),
          (''coordinates'', PList [PList [PList [PInt x, PInt y], PList [PInt (x + 1), PInt y],
             PList [PInt x, PInt (y + 1)], PList [PInt x, PInt y]]])])]]"

definition ex_far_point :: geojson where
  "ex_far_point = feature_collection
     [[(''type'', PStr ''Feature''), (''properties'', PDict []),
       (''geometry'', point_geom 2000000 5000000)]]"














section \<open>Properties of the exact-attribute join\<close>

lemma mapE_length: "mapE f xs = Inr ys \<Longrightarrow> length ys = length xs"
  by (induction xs arbitrary: ys) (auto split: sum.splits)

lemma mapE_nth: "mapE f xs = Inr ys \<Longrightarrow> i < length xs \<Longrightarrow> f (xs ! i) = Inr (ys ! i)"
proof (induction xs arbitrary: ys i)
  case Nil
  then show ?case by simp
next
  case (Cons x xs)
  then show ?case by (cases i) (auto split: sum.splits)
qed

lemma copy_items_changed:
  "map_of (copy_items cond sp p) k \<noteq> map_of p k
   \<Longrightarrow> \<exists>v. (k, v) \<in> set sp \<and> cond k v \<and> map_of (copy_items cond sp p) k = Some v"
proof (induction sp arbitrary: p)
  case Nil
  then show ?case by (simp add: copy_items_def)
next
  case (Cons a sp)
  obtain key v where a: "a = (key, v)" by (cases a)
  let ?p' = "if cond key v then AList.update key v p else p"
  have step: "copy_items cond (a # sp) p = copy_items cond sp ?p'"
    by (simp add: copy_items_def a)
  show ?case
  proof (cases "map_of (copy_items cond sp ?p') k = map_of ?p' k")
    case True
    with Cons.prems step have ne: "map_of ?p' k \<noteq> map_of p k" by simp
    then have "cond key v \<and> k = key"
      by (auto simp: update_conv split: if_splits)
    with True a step show ?thesis by (auto simp: update_conv)
  next
    case False
    from Cons.IH[OF False] a step show ?thesis by auto
  qed
qed

lemma copy_items_unchanged:
  "(\<And>v. (k, v) \<in> set sp \<Longrightarrow> \<not> cond k v) \<Longrightarrow> map_of (copy_items cond sp p) k = map_of p k"
  using copy_items_changed[of cond sp p k] by blast

lemma copy_items_copied:
  "distinct (map fst sp) \<Longrightarrow> (k, v) \<in> set sp \<Longrightarrow> cond k v
   \<Longrightarrow> map_of (copy_items cond sp p) k = Some v"
proof (induction sp arbitrary: p)
  case Nil
  then show ?case by simp
next
  case (Cons a sp)
  obtain key w where a: "a = (key, w)" by (cases a)
  let ?p' = "if cond key w then AList.update key w p else p"
  have step: "copy_items cond (a # sp) p = copy_items cond sp ?p'"
    by (simp add: copy_items_def a)
  show ?case
  proof (cases "(k, v) \<in> set sp")
    case True
    with Cons a step show ?thesis by auto
  next
    case False
    with Cons.prems a have kv: "key = k" "w = v" by auto
    from Cons.prems(1) a kv have "\<And>u. (k, u) \<notin> set sp" by (auto simp: image_iff)
    then have "map_of (copy_items cond sp ?p') k = map_of ?p' k"
      by (intro copy_items_unchanged) blast
    with step kv Cons.prems(3) show ?thesis by (simp add: update_conv)
  qed
qed

lemma copy_items_keys: "fst ` set p \<subseteq> fst ` set (copy_items cond sp p)"
proof (induction sp arbitrary: p)
  case Nil
  then show ?case by (simp add: copy_items_def)
next
  case (Cons a sp)
  obtain key v where a: "a = (key, v)" by (cases a)
  let ?p' = "if cond key v then AList.update key v p else p"
  have step: "copy_items cond (a # sp) p = copy_items cond sp ?p'"
    by (simp add: copy_items_def a)
  have "fst ` set p \<subseteq> fst ` set ?p'" by (auto simp: dom_update)
  with Cons.IH[of ?p'] step show ?case by auto
qed

lemma merge_truthy_changed:
  "map_of (merge_truthy sp p) k \<noteq> map_of p k
   \<Longrightarrow> \<exists>v. (k, v) \<in> set sp \<and> truthy v \<and> k \<noteq> [] \<and> map_of (merge_truthy sp p) k = Some v"
  unfolding merge_truthy_def using copy_items_changed[of key_and_value sp p k]
  by (auto simp: key_and_value_def)

lemma secondary_lookup_sound:
  "secondary_lookup S fld lk0 = Inr lk \<Longrightarrow> lk key = Some sp \<Longrightarrow>
   lk0 key = Some sp \<or>
   (\<exists>s \<in> set S. dict_get_default s ''properties'' (PDict []) = PDict sp \<and>
       truthy (dict_get sp fld) \<and> key_norm (dict_get sp fld) = key)"
proof (induction S arbitrary: lk0)
  case Nil
  then show ?case by simp
next
  case (Cons feature rest)
  show ?case
  proof (cases "dict_get_default feature ''properties'' (PDict [])")
    case (PDict props)
    show ?thesis
    proof (cases "truthy (dict_get props fld)")
      case True
      with Cons.prems PDict have h: "hashable (dict_get props fld)"
        and r: "secondary_lookup rest fld (lk0(key_norm (dict_get props fld) \<mapsto> props)) = Inr lk"
        by (auto simp: Let_def split: if_splits)
      from Cons.IH[OF r Cons.prems(2)] show ?thesis
      proof
        assume "(lk0(key_norm (dict_get props fld) \<mapsto> props)) key = Some sp"
        then show ?thesis using PDict True by (auto split: if_splits)
      next
        assume "\<exists>s\<in>set rest. dict_get_default s ''properties'' (PDict []) = PDict sp \<and>
          truthy (dict_get sp fld) \<and> key_norm (dict_get sp fld) = key"
        then show ?thesis by auto
      qed
    next
      case False
      with Cons.prems PDict have r: "secondary_lookup rest fld lk0 = Inr lk"
        by (auto simp: Let_def)
      from Cons.IH[OF r Cons.prems(2)] show ?thesis by auto
    qed
  qed (use Cons.prems in auto)
qed

lemma merge_by_id_feature_props:
  assumes "merge_by_id_feature lk pf feature = Inr f'"
  shows "\<exists>props. dict_get_default feature ''properties'' (PDict []) = PDict props \<and>
     dict_get f' ''geometry'' = dict_get feature ''geometry'' \<and>
     dict_get f' ''properties'' = PDict
       (if truthy (dict_get props pf) then
          (case lk (key_norm (dict_get props pf)) of
             Some sp \<Rightarrow> merge_truthy sp props | None \<Rightarrow> props)
        else props)"
  using assms
  by (cases "dict_get_default feature ''properties'' (PDict [])")
     (auto simp: merge_by_id_feature_def Let_def dict_get_def dict_get_default_def
           split: if_splits)

text \<open>
  Claim C4. In \<open>merge_by_id\<close>, the attributes of the primary record at position \<open>i\<close>
  are changed only when its key value is truthy and present in the secondary lookup, and
  then only at keys whose secondary value is truthy, which becomes the new value. A
  primary record whose key value is falsy or absent from the lookup keeps its attributes
  as they were. Every entry of the lookup is the attribute dict of a secondary record
  with that key value.
\<close>

theorem merge_by_id_frame:
  assumes "merge_by_id primary_data secondary_data pf sf = Inr out"
    and "i < length (features primary_data)"
  shows "\<exists>lk props props'.
      secondary_lookup (features secondary_data) sf Map.empty = Inr lk \<and>
      (\<forall>key sp. lk key = Some sp \<longrightarrow>
         (\<exists>s \<in> set (features secondary_data).
            dict_get_default s ''properties'' (PDict []) = PDict sp \<and>
            truthy (dict_get sp sf) \<and> key_norm (dict_get sp sf) = key)) \<and>
      dict_get_default (features primary_data ! i) ''properties'' (PDict []) = PDict props \<and>
      dict_get (features out ! i) ''properties'' = PDict props' \<and>
      (\<not> truthy (dict_get props pf) \<or> lk (key_norm (dict_get props pf)) = None
         \<longrightarrow> props' = props) \<and>
      (\<forall>k. map_of props' k \<noteq> map_of props k \<longrightarrow>
         truthy (dict_get props pf) \<and>
         (\<exists>sp v. lk (key_norm (dict_get props pf)) = Some sp \<and>
            (k, v) \<in> set sp \<and> truthy v \<and> map_of props' k = Some v))"
proof -
  from assms(1) obtain lk merged where
    lk: "secondary_lookup (features secondary_data) sf Map.empty = Inr lk" and
    m: "mapE (merge_by_id_feature lk pf) (features primary_data) = Inr merged" and
    out: "out = feature_collection merged"
    by (auto simp: merge_by_id_def split: sum.splits)
  from mapE_nth[OF m assms(2)]
  have fi: "merge_by_id_feature lk pf (features primary_data ! i) = Inr (merged ! i)" .
  from merge_by_id_feature_props[OF fi] obtain props where
    p: "dict_get_default (features primary_data ! i) ''properties'' (PDict []) = PDict props" and
    p': "dict_get (merged ! i) ''properties'' = PDict
       (if truthy (dict_get props pf) then
          (case lk (key_norm (dict_get props pf)) of
             Some sp \<Rightarrow> merge_truthy sp props | None \<Rightarrow> props)
        else props)" by blast
  let ?props' = "if truthy (dict_get props pf) then
          (case lk (key_norm (dict_get props pf)) of
             Some sp \<Rightarrow> merge_truthy sp props | None \<Rightarrow> props)
        else props"
  have src: "\<forall>key sp. lk key = Some sp \<longrightarrow>
         (\<exists>s \<in> set (features secondary_data).
            dict_get_default s ''properties'' (PDict []) = PDict sp \<and>
            truthy (dict_get sp sf) \<and> key_norm (dict_get sp sf) = key)"
    using secondary_lookup_sound[OF lk] by auto
  have unch: "\<not> truthy (dict_get props pf) \<or> lk (key_norm (dict_get props pf)) = None
         \<longrightarrow> ?props' = props" by auto
  have ch: "\<forall>k. map_of ?props' k \<noteq> map_of props k \<longrightarrow>
         truthy (dict_get props pf) \<and>
         (\<exists>sp v. lk (key_norm (dict_get props pf)) = Some sp \<and>
            (k, v) \<in> set sp \<and> truthy v \<and> map_of ?props' k = Some v)"
  proof (intro allI impI)
    fix k assume ne: "map_of ?props' k \<noteq> map_of props k"
    then have t: "truthy (dict_get props pf)" by (auto split: if_splits)
    from ne t obtain sp where sp: "lk (key_norm (dict_get props pf)) = Some sp"
      by (cases "lk (key_norm (dict_get props pf))") auto
    from ne t sp have "map_of (merge_truthy sp props) k \<noteq> map_of props k" by simp
    from merge_truthy_changed[OF this] t sp
    show "truthy (dict_get props pf) \<and>
         (\<exists>sp v. lk (key_norm (dict_get props pf)) = Some sp \<and>
            (k, v) \<in> set sp \<and> truthy v \<and> map_of ?props' k = Some v)" by auto
  qed
  have "features out ! i = merged ! i" using out by (simp add: feature_collection_def)
  with p' have p'': "dict_get (features out ! i) ''properties'' = PDict ?props'" by simp
  show ?thesis
    apply (rule exI[of _ lk], rule exI[of _ props], rule exI[of _ ?props'])
    using lk src p p'' unch ch by blast
qed

lemma ex_merge_by_id:
  "merge_by_id ex_primary ex_secondary ''PIN'' ''PIN'' = Inr ex_merged"
  by (simp add: merge_by_id_def ex_primary_def ex_secondary_def feature_collection_def
      merge_by_id_feature_def merge_truthy_def dict_get_def dict_get_default_def Let_def
      ex_merged_def copy_items_def key_and_value_def)

theorem merge_by_id_frame_witness:
  "merge_by_id ex_primary ex_secondary ''PIN'' ''PIN'' = Inr ex_merged \<and>
   (0::nat) < length (features ex_primary) \<and>
   (\<exists>lk props props'.
      secondary_lookup (features ex_secondary) ''PIN'' Map.empty = Inr lk \<and>
      (\<forall>key sp. lk key = Some sp \<longrightarrow>
         (\<exists>s \<in> set (features ex_secondary).
            dict_get_default s ''properties'' (PDict []) = PDict sp \<and>
            truthy (dict_get sp ''PIN'') \<and> key_norm (dict_get sp ''PIN'') = key)) \<and>
      dict_get_default (features ex_primary ! 0) ''properties'' (PDict []) = PDict props \<and>
      dict_get (features ex_merged ! 0) ''properties'' = PDict props' \<and>
      (\<not> truthy (dict_get props ''PIN'') \<or> lk (key_norm (dict_get props ''PIN'')) = None
         \<longrightarrow> props' = props) \<and>
      (\<forall>k. map_of props' k \<noteq> map_of props k \<longrightarrow>
         truthy (dict_get props ''PIN'') \<and>
         (\<exists>sp v. lk (key_norm (dict_get props ''PIN'')) = Some sp \<and>
            (k, v) \<in> set sp \<and> truthy v \<and> map_of props' k = Some v)))"
proof -
  have len: "(0::nat) < length (features ex_primary)"
    by (simp add: ex_primary_def feature_collection_def)
  from merge_by_id_frame[OF ex_merge_by_id len] ex_merge_by_id len
  show ?thesis by blast
qed

section \<open>Properties of the spatial join\<close>

lemma ex_index_ok: "index_parcels box_shapely (features ex_parcels) 0 empty_index = Inr ex_index"
  by code_simp

lemma first_where_Nil: "first_where sh m P [] = None"
  by (simp add: first_where_def)

lemma first_where_NotGeometry: "first_where sh m P (NotGeometry # cs) = first_where sh m P cs"
  by (simp add: first_where_def qualifies_def)

lemma first_where_Geometry:
  "first_where sh m P (Geometry x # cs) =
     (case map_of m (wkt sh x) of
        None \<Rightarrow> first_where sh m P cs
      | Some idx \<Rightarrow> if P x then Some idx else first_where sh m P cs)"
  by (cases "map_of m (wkt sh x)") (simp_all add: first_where_def qualifies_def)

text \<open>
  Claim C1, as amended. For each address, the selected parcel is that of the first
  candidate, in the order the index yields them, that contains the address geometry or
  intersects it. Containment is not preferred over intersection.
\<close>

theorem find_match_first_where:
  "find_match sh m g cands = first_where sh m (\<lambda>c. contains sh c g \<or> intersects sh c g) cands"
proof (induction cands)
  case Nil
  then show ?case by (simp add: first_where_Nil)
next
  case (Cons c cands)
  show ?case
  proof (cases c)
    case NotGeometry
    with Cons show ?thesis by (simp add: first_where_NotGeometry)
  next
    case (Geometry x)
    with Cons show ?thesis
      by (cases "map_of m (wkt sh x)") (simp_all add: first_where_Geometry)
  qed
qed

text \<open>
  The claim as stated fails: the point (2,1) lies on the boundary of the first parcel and
  inside the second. The index yields both, the loop stops at the first, and the
  containment-first selection of the specification gives the second.
\<close>

theorem find_match_containment_first_counterexample:
  "index_parcels box_shapely (features ex_parcels) 0 empty_index = Inr ex_index \<and>
   shape box_shapely (point_geom 2 1) = Inr (Pt 2 1) \<and>
   query box_shapely (parcel_geoms ex_index) (Pt 2 1) = [Geometry (Rect 0 0 2 2), Geometry (Rect 1 0 4 3)] \<and>
   \<not> contains box_shapely (Rect 0 0 2 2) (Pt 2 1) \<and>
   intersects box_shapely (Rect 0 0 2 2) (Pt 2 1) \<and>
   contains box_shapely (Rect 1 0 4 3) (Pt 2 1) \<and>
   find_match box_shapely (geom_wkt_to_idx ex_index) (Pt 2 1)
     (query box_shapely (parcel_geoms ex_index) (Pt 2 1)) = Some 0 \<and>
   spec_containment_first box_shapely (geom_wkt_to_idx ex_index) (Pt 2 1)
     (query box_shapely (parcel_geoms ex_index) (Pt 2 1)) = Some 1"
  by code_simp

lemma ex_spatial_join:
  "spatial_join box_shapely ex_parcels ex_addresses ''PIN'' ''FID'' = Inr (ex_joined, ex_stats)"
  by code_simp

lemma append_address_sum:
  "sum_list (map (\<lambda>x. length (snd x)) (append_address p idx a)) = Suc (sum_list (map (\<lambda>x. length (snd x)) p))"
proof (induction p)
  case Nil
  then show ?case by (simp add: append_address_def)
next
  case (Cons x p)
  obtain k l where x: "x = (k, l)" by (cases x)
  show ?case
  proof (cases "k = idx")
    case True
    with x show ?thesis by (simp add: append_address_def)
  next
    case False
    with x Cons show ?thesis by (simp add: append_address_def)
  qed
qed

lemma match_addresses_count:
  "match_addresses sh ix addrs (p, u) = Inr (p', u') \<Longrightarrow>
   sum_list (map (\<lambda>x. length (snd x)) p') + length u' =
   sum_list (map (\<lambda>x. length (snd x)) p) + length u + length addrs"
proof (induction addrs arbitrary: p u)
  case Nil
  then show ?case by simp
next
  case (Cons a addrs)
  from Cons.prems obtain gd g where
    gd: "map_of a ''geometry'' = Some gd" and g: "shape sh gd = Inr g"
    by (auto split: option.splits sum.splits)
  show ?case
  proof (cases "find_match sh (geom_wkt_to_idx ix) g (query sh (parcel_geoms ix) g)")
    case None
    with Cons.prems gd g
    have "match_addresses sh ix addrs (p, u @ [a]) = Inr (p', u')" by simp
    from Cons.IH[OF this] show ?thesis by simp
  next
    case (Some idx)
    with Cons.prems gd g
    have "match_addresses sh ix addrs (append_address p idx a, u) = Inr (p', u')" by simp
    from Cons.IH[OF this] show ?thesis by (simp add: append_address_sum)
  qed
qed

lemma apply_address_frame:
  "apply_address f l = Inr f' \<Longrightarrow> k \<noteq> ''properties'' \<Longrightarrow> map_of f' k = map_of f k"
  by (auto simp: apply_address_def update_conv
           split: list.splits option.splits pyval.splits if_splits)

lemma apply_addresses_result:
  "apply_addresses refs pf af p2a (feats, t, r) = Inr (feats', t', r') \<Longrightarrow>
   t' = t + sum_list (map (\<lambda>x. length (snd x)) p2a) \<and> length feats' = length feats \<and>
   (\<forall>i < length feats. \<forall>k. k \<noteq> ''properties'' \<longrightarrow> map_of (feats' ! i) k = map_of (feats ! i) k)"
proof (induction p2a arbitrary: feats t r)
  case Nil
  then show ?case by simp
next
  case (Cons x p2a)
  obtain idx l where x: "x = (idx, l)" by (cases x)
  from Cons.prems x have ok: "idx < length refs" "refs ! idx < length feats"
    by (auto split: if_splits)
  let ?pf = "feats ! (refs ! idx)"
  from Cons.prems x ok obtain r1 pf' where
    pf': "apply_address ?pf l = Inr pf'" and
    rest: "apply_addresses refs pf af p2a (feats[refs ! idx := pf'], t + length l, r1) = Inr (feats', t', r')"
    by (auto simp: Let_def split: sum.splits if_splits)
  from Cons.IH[OF rest] have
    t': "t' = t + length l + sum_list (map (\<lambda>x. length (snd x)) p2a)" and
    len: "length feats' = length feats" and
    geo: "\<forall>i < length feats. \<forall>k. k \<noteq> ''properties'' \<longrightarrow>
            map_of (feats' ! i) k = map_of (feats[refs ! idx := pf'] ! i) k"
    by auto
  have "\<forall>i < length feats. \<forall>k. k \<noteq> ''properties'' \<longrightarrow>
          map_of (feats[refs ! idx := pf'] ! i) k = map_of (feats ! i) k"
  proof (intro allI impI)
    fix i k assume "i < length feats" "k \<noteq> ''properties''"
    then show "map_of (feats[refs ! idx := pf'] ! i) k = map_of (feats ! i) k"
      using apply_address_frame[OF pf'] by (cases "i = refs ! idx") simp_all
  qed
  with t' len geo x show ?case by simp
qed

text \<open>
  Claim C5. When the spatial join completes, the number of matched addresses in its
  summary and the number of unmatched addresses add up to the number of address records:
  the matched count is the total minus the unmatched count.
\<close>

theorem spatial_join_count:
  assumes "spatial_join sh parcel_data address_data pf af = Inr (out, stats)"
  shows "total_matched_addresses stats + unmatched_count stats = length (features address_data) \<and>
    total_matched_addresses stats = length (features address_data) - unmatched_count stats"
proof -
  from assms obtain ix p2a un feats t r where
    m: "match_addresses sh ix (features address_data) ([], []) = Inr (p2a, un)" and
    a: "apply_addresses (parcel_features ix) pf af p2a (features parcel_data, 0, []) = Inr (feats, t, r)" and
    st: "total_matched_addresses stats = t" "unmatched_count stats = length un"
    by (auto simp: spatial_join_def split: sum.splits prod.splits)
  from match_addresses_count[OF m] apply_addresses_result[OF a] st show ?thesis by simp
qed

theorem spatial_join_count_witness:
  "spatial_join box_shapely ex_parcels ex_addresses ''PIN'' ''FID'' = Inr (ex_joined, ex_stats) \<and>
   total_matched_addresses ex_stats + unmatched_count ex_stats = length (features ex_addresses) \<and>
   total_matched_addresses ex_stats = length (features ex_addresses) - unmatched_count ex_stats"
  using spatial_join_count[OF ex_spatial_join] ex_spatial_join by simp

text \<open>
  Claim C3. A parcel whose geometry is null is left out of the index and the join
  completes. An address record without a \<open>geometry\<close> member is not skipped: the
  subscription raises KeyError and the join fails, whatever the geometry library. An
  address record whose geometry is null is handed to \<open>shape\<close> as it is, and the join
  fails with the error of the library, which does not accept a null.
\<close>

theorem spatial_join_missing_geometry:
  "spatial_join sh
     (feature_collection [[(''properties'', PDict [(''PIN'', PStr ''P1'')]), (''geometry'', PNone)]])
     (feature_collection []) pf af =
   Inr (feature_collection [[(''properties'', PDict [(''PIN'', PStr ''P1'')]), (''geometry'', PNone)]],
        \<lparr>parcels_with_address = 0, total_matched_addresses = 0, unmatched_count = 0, multi_reports = []\<rparr>) \<and>
   spatial_join sh (feature_collection []) ex_address_no_geometry pf af = Inl KeyError \<and>
   spatial_join box_shapely ex_parcels ex_address_null_geometry ''PIN'' ''FID'' = Inl AttributeError"
proof (intro conjI)
  show "spatial_join sh
     (feature_collection [[(''properties'', PDict [(''PIN'', PStr ''P1'')]), (''geometry'', PNone)]])
     (feature_collection []) pf af =
   Inr (feature_collection [[(''properties'', PDict [(''PIN'', PStr ''P1'')]), (''geometry'', PNone)]],
        \<lparr>parcels_with_address = 0, total_matched_addresses = 0, unmatched_count = 0, multi_reports = []\<rparr>)"
    by (simp add: spatial_join_def feature_collection_def empty_index_def dict_get_def
        dict_get_default_def)
  show "spatial_join sh (feature_collection []) ex_address_no_geometry pf af = Inl KeyError"
    by (simp add: spatial_join_def feature_collection_def ex_address_no_geometry_def
        empty_index_def)
  show "spatial_join box_shapely ex_parcels ex_address_null_geometry ''PIN'' ''FID'' = Inl AttributeError"
    by code_simp
qed

section \<open>Properties of the key-based joins\<close>

lemma ex_join_fail: "join_address_to_parcel True ex_acct_parcels ex_acct_addresses_no_key ''RWACCT'' ''Account #'' = Inl KeyError"
  by code_simp

lemma mapE_fails: "x \<in> set xs \<Longrightarrow> f x = Inl e \<Longrightarrow> \<exists>e'. mapE f xs = Inl e'"
  by (induction xs) (auto split: sum.splits)

lemma mapE_error_source: "mapE f xs = Inl e \<Longrightarrow> \<exists>x \<in> set xs. f x = Inl e"
  by (induction xs) (auto split: sum.splits)

lemma address_lookup_of_missing:
  "f \<in> set A \<Longrightarrow> lacks_key ak f \<Longrightarrow> \<exists>e. address_lookup_of A ak lk = Inl e"
proof (induction A arbitrary: lk)
  case Nil
  then show ?case by simp
next
  case (Cons a A)
  show ?case
  proof (cases "record_props a")
    case (PDict props)
    show ?thesis
    proof (cases "map_of props ak")
      case None
      with PDict show ?thesis by simp
    next
      case (Some key)
      with PDict Cons.prems have "f \<in> set A" by (auto simp: lacks_key_def)
      from Cons.IH[OF this Cons.prems(2)] PDict Some show ?thesis by simp
    qed
  qed simp_all
qed

lemma address_lookup_of_error:
  "well_keyed ak A \<Longrightarrow> address_lookup_of A ak lk = Inl e \<Longrightarrow> e = KeyError"
proof (induction A arbitrary: lk)
  case Nil
  then show ?case by simp
next
  case (Cons a A)
  from Cons.prems(1) obtain props where p: "record_props a = PDict props"
    and h: "\<And>v. map_of props ak = Some v \<Longrightarrow> hashable v" and w: "well_keyed ak A"
    by (cases "record_props a") (auto simp: well_keyed_def split: option.splits)
  show ?case
  proof (cases "map_of props ak")
    case None
    with p Cons.prems(2) show ?thesis by simp
  next
    case (Some key)
    with p h Cons.prems(2)
    have "address_lookup_of A ak (lk(key_norm key \<mapsto> props)) = Inl e" by simp
    from Cons.IH[OF w this] show ?thesis .
  qed
qed

lemma join_feature_missing: "lacks_key pk f \<Longrightarrow> join_feature lk pk ak f = Inl KeyError"
  by (cases "record_props f") (auto simp: lacks_key_def join_feature_def)

lemma join_feature_error:
  "well_keyed pk fs \<Longrightarrow> f \<in> set fs \<Longrightarrow> join_feature lk pk ak f = Inl e \<Longrightarrow> e = KeyError"
  by (cases "record_props f")
     (auto simp: well_keyed_def list_all_iff join_feature_def Let_def
           split: option.splits if_splits)

lemma merge_by_id_feature_lenient:
  "dict_get_default feature ''properties'' (PDict []) = PDict props \<Longrightarrow> map_of props pf = None \<Longrightarrow>
   merge_by_id_feature lk pf feature =
     Inr [(''type'', PStr ''Feature''), (''geometry'', dict_get feature ''geometry''),
          (''properties'', PDict props)]"
  by (simp add: merge_by_id_feature_def dict_get_def dict_get_default_def)

lemma merge_by_pidn_feature_lenient:
  "dict_get_default feature ''properties'' (PDict []) = PDict props \<Longrightarrow>
   extract_properties_from_description soup (dict_get_default props ''description'' (PStr [])) = Inr parsed \<Longrightarrow>
   map_of parsed ''pidn'' = None \<Longrightarrow>
   merge_by_pidn_feature soup lk feature =
     Inr [(''type'', PStr ''Feature''), (''id'', dict_get feature ''id''),
          (''properties'', PDict (copy_items key_and_value parsed props)),
          (''geometry'', dict_get feature ''geometry'')]"
  by (simp add: merge_by_pidn_feature_def pidn_of_def dict_get_default_def py_strip_def strip_where_def)

text \<open>
  Claim C8. In the cross-encoding join, when some address record or some parcel record
  has no value under its join key, the whole operation fails; when that is the only
  defect of the record sets (attributes are dicts, key values hashable), the failure is
  KeyError. The lookups of the exact-attribute join and of the structured-text join are
  lenient: a record without the key passes through with its attributes.
\<close>

theorem join_address_to_parcel_strict:
  assumes "list_ex (lacks_key address_key) addresses \<or>
           list_ex (lacks_key parcel_key) parcels"
  shows "(\<exists>e. join_address_to_parcel geo parcels addresses parcel_key address_key = Inl e) \<and>
    (well_keyed address_key addresses \<and> well_keyed parcel_key parcels \<longrightarrow>
       join_address_to_parcel geo parcels addresses parcel_key address_key = Inl KeyError) \<and>
    (\<forall>lk pf feature props.
       dict_get_default feature ''properties'' (PDict []) = PDict props \<and> map_of props pf = None \<longrightarrow>
       merge_by_id_feature lk pf feature =
         Inr [(''type'', PStr ''Feature''), (''geometry'', dict_get feature ''geometry''),
              (''properties'', PDict props)]) \<and>
    (\<forall>soup lk feature props parsed.
       dict_get_default feature ''properties'' (PDict []) = PDict props \<and>
       extract_properties_from_description soup (dict_get_default props ''description'' (PStr [])) = Inr parsed \<and>
       map_of parsed ''pidn'' = None \<longrightarrow>
       merge_by_pidn_feature soup lk feature =
         Inr [(''type'', PStr ''Feature''), (''id'', dict_get feature ''id''),
              (''properties'', PDict (copy_items key_and_value parsed props)),
              (''geometry'', dict_get feature ''geometry'')])"
proof -
  let ?J = "join_address_to_parcel geo parcels addresses parcel_key address_key"
  let ?R = "join_records parcels addresses parcel_key address_key"
  have fails: "\<exists>e. ?R = Inl e"
  proof (cases "address_lookup_of addresses address_key Map.empty")
    case (Inl e)
    then show ?thesis by (simp add: join_records_def)
  next
    case (Inr lk)
    with assms address_lookup_of_missing[of _ addresses address_key Map.empty]
    obtain f where f: "f \<in> set parcels" "lacks_key parcel_key f"
      by (auto simp: list_ex_iff)
    from mapE_fails[where f = "join_feature lk parcel_key address_key", OF f(1) join_feature_missing[OF f(2)]]
    obtain e' where "mapE (join_feature lk parcel_key address_key) parcels = Inl e'"
      by blast
    with Inr show ?thesis by (simp add: join_records_def)
  qed
  then have 1: "\<exists>e. ?J = Inl e" by (auto simp: join_address_to_parcel_def)
  have 2: "?J = Inl KeyError"
    if w: "well_keyed address_key addresses" "well_keyed parcel_key parcels"
  proof -
    from fails obtain e where e: "?R = Inl e" by blast
    have "e = KeyError"
    proof (cases "address_lookup_of addresses address_key Map.empty")
      case (Inl e0)
      with e have "e0 = e" by (simp add: join_records_def)
      with Inl address_lookup_of_error[OF w(1)] show ?thesis by blast
    next
      case (Inr lk)
      with assms address_lookup_of_missing[of _ addresses address_key Map.empty]
      obtain f where f: "f \<in> set parcels" "lacks_key parcel_key f"
        by (auto simp: list_ex_iff)
      from mapE_fails[where f = "join_feature lk parcel_key address_key", OF f(1) join_feature_missing[OF f(2)]]
      obtain e' where m: "mapE (join_feature lk parcel_key address_key) parcels = Inl e'"
        by blast
      with Inr e have "e' = e" by (simp add: join_records_def)
      from mapE_error_source[OF m] obtain x where
        "x \<in> set parcels" "join_feature lk parcel_key address_key x = Inl e'" by blast
      from join_feature_error[OF w(2) this] \<open>e' = e\<close> show ?thesis by simp
    qed
    with e show ?thesis by (simp add: join_address_to_parcel_def)
  qed
  from 1 2 merge_by_id_feature_lenient merge_by_pidn_feature_lenient show ?thesis
    by (intro conjI allI impI) blast+
qed

theorem join_address_to_parcel_strict_witness:
  "list_ex (lacks_key ''Account #'') ex_acct_addresses_no_key \<and>
   well_keyed ''Account #'' ex_acct_addresses_no_key \<and> well_keyed ''RWACCT'' ex_acct_parcels \<and>
   join_address_to_parcel True ex_acct_parcels ex_acct_addresses_no_key ''RWACCT'' ''Account #'' = Inl KeyError"
proof -
  have a: "list_ex (lacks_key ''Account #'') ex_acct_addresses_no_key" by code_simp
  have b: "well_keyed ''Account #'' ex_acct_addresses_no_key" by code_simp
  have c: "well_keyed ''RWACCT'' ex_acct_parcels" by code_simp
  from join_address_to_parcel_strict[of "''Account #''" ex_acct_addresses_no_key "''RWACCT''" ex_acct_parcels True]
    a b c show ?thesis by blast
qed


lemma ex_merge_scraped: "merge_scraped_data ex_primary ex_scraped ''PIN'' = Inr ex_scraped_merged"
  by code_simp

lemma ex_merge_by_pidn: "merge_by_pidn ex_soup_rows ex_pidn_parcels ex_pidn_addresses = Inr ex_pidn_merged"
  by code_simp

lemma ex_join_records: "join_records ex_acct_parcels ex_acct_addresses ''RWACCT'' ''Account #'' = Inr ex_acct_joined"
  by code_simp

lemma merge_scraped_feature_props:
  assumes "merge_scraped_feature lk mf feature = Inr f'"
  shows "\<exists>props. dict_get_default feature ''properties'' (PDict []) = PDict props \<and>
     dict_get f' ''geometry'' = dict_get feature ''geometry'' \<and>
     dict_get f' ''properties'' = PDict
       (if truthy (dict_get props mf) then
          (case lk (key_norm (dict_get props mf)) of
             Some item \<Rightarrow> copy_items (scraped_cond mf) item props | None \<Rightarrow> props)
        else props)"
  using assms
  by (cases "dict_get_default feature ''properties'' (PDict [])")
     (auto simp: merge_scraped_feature_def Let_def dict_get_def dict_get_default_def
           split: if_splits)

lemma merge_by_pidn_feature_geometry:
  assumes "merge_by_pidn_feature soup lk feature = Inr f'"
  shows "dict_get f' ''geometry'' = dict_get feature ''geometry''"
  using assms
  by (cases "dict_get_default feature ''properties'' (PDict [])")
     (auto simp: merge_by_pidn_feature_def Let_def dict_get_def dict_get_default_def
           split: if_splits sum.splits)

lemma mapE_preserves:
  assumes "mapE f xs = Inr ys" and "\<And>x y. f x = Inr y \<Longrightarrow> g y = g x"
  shows "length ys = length xs \<and> (\<forall>i < length xs. f (xs ! i) = Inr (ys ! i) \<and> g (ys ! i) = g (xs ! i))"
  using mapE_length[OF assms(1)] mapE_nth[OF assms(1)] assms(2) by blast

text \<open>
  Claim C9. Each of the four joins (exact-attribute, structured-text, scraped-data,
  spatial), when it completes, returns as many records as the primary set has, and the
  record at each position has the geometry of the primary record at that position. The
  spatial join changes nothing of a record but its \<open>properties\<close>.
\<close>

theorem joins_preserve_records:
  "(merge_by_id primary1 secondary1 pf sf = Inr out1 \<longrightarrow>
      length (features out1) = length (features primary1) \<and>
      (\<forall>i < length (features primary1).
         dict_get (features out1 ! i) ''geometry'' = dict_get (features primary1 ! i) ''geometry'')) \<and>
   (merge_by_pidn soup primary2 secondary2 = Inr out2 \<longrightarrow>
      length (features out2) = length (features primary2) \<and>
      (\<forall>i < length (features primary2).
         dict_get (features out2 ! i) ''geometry'' = dict_get (features primary2 ! i) ''geometry'')) \<and>
   (merge_scraped_data primary3 scraped mf = Inr out3 \<longrightarrow>
      length (features out3) = length (features primary3) \<and>
      (\<forall>i < length (features primary3).
         dict_get (features out3 ! i) ''geometry'' = dict_get (features primary3 ! i) ''geometry'')) \<and>
   (spatial_join sh primary4 secondary4 pid aid = Inr (out4, stats) \<longrightarrow>
      length (features out4) = length (features primary4) \<and>
      (\<forall>i < length (features primary4).
         dict_get (features out4 ! i) ''geometry'' = dict_get (features primary4 ! i) ''geometry'' \<and>
         (\<forall>k. k \<noteq> ''properties'' \<longrightarrow> map_of (features out4 ! i) k = map_of (features primary4 ! i) k)))"
proof (intro conjI impI)
  assume "merge_by_id primary1 secondary1 pf sf = Inr out1"
  then obtain lk merged where
    m: "mapE (merge_by_id_feature lk pf) (features primary1) = Inr merged" and
    out: "features out1 = merged"
    by (auto simp: merge_by_id_def feature_collection_def split: sum.splits)
  from mapE_preserves[OF m, of "\<lambda>f. dict_get f ''geometry''"] merge_by_id_feature_props out
  show "length (features out1) = length (features primary1)"
    and "\<forall>i < length (features primary1).
         dict_get (features out1 ! i) ''geometry'' = dict_get (features primary1 ! i) ''geometry''"
    by blast+
next
  assume "merge_by_pidn soup primary2 secondary2 = Inr out2"
  then obtain lk merged where
    m: "mapE (merge_by_pidn_feature soup lk) (features primary2) = Inr merged" and
    out: "features out2 = merged"
    by (auto simp: merge_by_pidn_def feature_collection_def split: sum.splits)
  from mapE_preserves[OF m, of "\<lambda>f. dict_get f ''geometry''"] merge_by_pidn_feature_geometry out
  show "length (features out2) = length (features primary2)"
    and "\<forall>i < length (features primary2).
         dict_get (features out2 ! i) ''geometry'' = dict_get (features primary2 ! i) ''geometry''"
    by blast+
next
  assume "merge_scraped_data primary3 scraped mf = Inr out3"
  then obtain lk merged where
    m: "mapE (merge_scraped_feature lk mf) (features primary3) = Inr merged" and
    out: "features out3 = merged"
    by (auto simp: merge_scraped_data_def feature_collection_def split: sum.splits)
  from mapE_preserves[OF m, of "\<lambda>f. dict_get f ''geometry''"] merge_scraped_feature_props out
  show "length (features out3) = length (features primary3)"
    and "\<forall>i < length (features primary3).
         dict_get (features out3 ! i) ''geometry'' = dict_get (features primary3 ! i) ''geometry''"
    by blast+
next
  assume "spatial_join sh primary4 secondary4 pid aid = Inr (out4, stats)"
  then obtain ix p2a feats t r where
    "index_parcels sh (features primary4) 0 empty_index = Inr ix" and
    a: "apply_addresses (parcel_features ix) pid aid p2a (features primary4, 0, []) = Inr (feats, t, r)" and
    out: "features out4 = feats"
    by (auto simp: spatial_join_def split: sum.splits prod.splits)
  from apply_addresses_result[OF a] out
  have len: "length (features out4) = length (features primary4)" and
    fr: "\<forall>i < length (features primary4). \<forall>k. k \<noteq> ''properties'' \<longrightarrow>
           map_of (features out4 ! i) k = map_of (features primary4 ! i) k"
    by auto
  show "length (features out4) = length (features primary4)" by (rule len)
  show "\<forall>i < length (features primary4).
         dict_get (features out4 ! i) ''geometry'' = dict_get (features primary4 ! i) ''geometry'' \<and>
         (\<forall>k. k \<noteq> ''properties'' \<longrightarrow> map_of (features out4 ! i) k = map_of (features primary4 ! i) k)"
    using fr by (simp add: dict_get_def dict_get_default_def)
qed


theorem joins_preserve_records_witness:
  "merge_by_id ex_primary ex_secondary ''PIN'' ''PIN'' = Inr ex_merged \<and>
   merge_by_pidn ex_soup_rows ex_pidn_parcels ex_pidn_addresses = Inr ex_pidn_merged \<and>
   merge_scraped_data ex_primary ex_scraped ''PIN'' = Inr ex_scraped_merged \<and>
   spatial_join box_shapely ex_parcels ex_addresses ''PIN'' ''FID'' = Inr (ex_joined, ex_stats) \<and>
   length (features ex_merged) = length (features ex_primary) \<and>
   dict_get (features ex_merged ! 1) ''geometry'' = dict_get (features ex_primary ! 1) ''geometry'' \<and>
   length (features ex_pidn_merged) = length (features ex_pidn_parcels) \<and>
   dict_get (features ex_pidn_merged ! 0) ''geometry'' = dict_get (features ex_pidn_parcels ! 0) ''geometry'' \<and>
   length (features ex_scraped_merged) = length (features ex_primary) \<and>
   dict_get (features ex_scraped_merged ! 0) ''geometry'' = dict_get (features ex_primary ! 0) ''geometry'' \<and>
   length (features ex_joined) = length (features ex_parcels) \<and>
   dict_get (features ex_joined ! 1) ''geometry'' = dict_get (features ex_parcels ! 1) ''geometry'' \<and>
   map_of (features ex_joined ! 1) ''type'' = map_of (features ex_parcels ! 1) ''type''"
proof -
  have l1: "(1::nat) < length (features ex_primary)" and l0: "(0::nat) < length (features ex_primary)"
    by (simp_all add: ex_primary_def feature_collection_def)
  have l2: "(0::nat) < length (features ex_pidn_parcels)"
    by (simp add: ex_pidn_parcels_def feature_collection_def)
  have l4: "(1::nat) < length (features ex_parcels)"
    by (simp add: ex_parcels_def feature_collection_def)
  have ne: "''type'' \<noteq> ''properties''" by simp
  note T = joins_preserve_records[where ?primary1.0 = ex_primary and ?secondary1.0 = ex_secondary
      and pf = "''PIN''" and sf = "''PIN''" and ?out1.0 = ex_merged
      and soup = ex_soup_rows and ?primary2.0 = ex_pidn_parcels and ?secondary2.0 = ex_pidn_addresses
      and ?out2.0 = ex_pidn_merged
      and ?primary3.0 = ex_primary and scraped = ex_scraped and mf = "''PIN''" and ?out3.0 = ex_scraped_merged
      and sh = box_shapely and ?primary4.0 = ex_parcels and ?secondary4.0 = ex_addresses
      and pid = "''PIN''" and aid = "''FID''" and ?out4.0 = ex_joined and stats = ex_stats]
  note A = T[THEN conjunct1, THEN mp, OF ex_merge_by_id]
  note B = T[THEN conjunct2, THEN conjunct1, THEN mp, OF ex_merge_by_pidn]
  note C = T[THEN conjunct2, THEN conjunct2, THEN conjunct1, THEN mp, OF ex_merge_scraped]
  note D = T[THEN conjunct2, THEN conjunct2, THEN conjunct2, THEN mp, OF ex_spatial_join]
  note D1 = D[THEN conjunct2, rule_format, OF l4]
  from A[THEN conjunct1] A[THEN conjunct2, rule_format, OF l1]
    B[THEN conjunct1] B[THEN conjunct2, rule_format, OF l2]
    C[THEN conjunct1] C[THEN conjunct2, rule_format, OF l0]
    D[THEN conjunct1] D1[THEN conjunct1] D1[THEN conjunct2, rule_format, OF ne]
    ex_merge_by_id ex_merge_by_pidn ex_merge_scraped ex_spatial_join
  show ?thesis by simp
qed

lemma scraped_lookup_sound:
  "scraped_lookup S fld lk0 = Inr lk \<Longrightarrow> lk key = Some item \<Longrightarrow>
   lk0 key = Some item \<or> item \<in> set S"
proof (induction S arbitrary: lk0)
  case Nil
  then show ?case by simp
next
  case (Cons a S)
  show ?case
  proof (cases "truthy (dict_get a fld)")
    case True
    with Cons.prems have
      r: "scraped_lookup S fld (lk0(key_norm (dict_get a fld) \<mapsto> a)) = Inr lk"
      by (auto simp: Let_def split: if_splits)
    from Cons.IH[OF r Cons.prems(2)] show ?thesis by (auto split: if_splits)
  next
    case False
    with Cons.prems have r: "scraped_lookup S fld lk0 = Inr lk" by (auto simp: Let_def)
    from Cons.IH[OF r Cons.prems(2)] show ?thesis by auto
  qed
qed

lemma address_lookup_of_sound:
  "address_lookup_of A ak lk0 = Inr lk \<Longrightarrow> lk key = Some props \<Longrightarrow>
   lk0 key = Some props \<or> (\<exists>a \<in> set A. record_props a = PDict props)"
proof (induction A arbitrary: lk0)
  case Nil
  then show ?case by simp
next
  case (Cons a A)
  from Cons.prems(1) obtain d v where d: "record_props a = PDict d" "map_of d ak = Some v"
    and r: "address_lookup_of A ak (lk0(key_norm v \<mapsto> d)) = Inr lk"
    by (cases "record_props a") (auto split: option.splits if_splits)
  from Cons.IH[OF r Cons.prems(2)] d show ?case by (auto split: if_splits)
qed

lemma join_feature_props:
  assumes "join_feature lk pk ak feature = Inr (f', False)"
  shows "\<exists>props key. record_props feature = PDict props \<and> map_of props pk = Some key \<and>
     record_props f' = PDict
       (case lk (key_norm key) of
          Some aprops \<Rightarrow> copy_items (not_address_key ak) aprops props
        | None \<Rightarrow> props)"
proof -
  from assms obtain props key where p: "record_props feature = PDict props"
    and k: "map_of props pk = Some key" and h: "hashable key"
    by (cases "record_props feature")
       (auto simp: join_feature_def Let_def split: option.splits if_splits)
  let ?props' = "case lk (key_norm key) of
          Some aprops \<Rightarrow> copy_items (not_address_key ak) aprops props
        | None \<Rightarrow> props"
  have "record_props f' = PDict ?props'"
  proof (cases "''properties'' \<in> fst ` set feature")
    case True
    with assms p k h have "f' = AList.update ''properties'' (PDict ?props') feature"
      by (simp add: join_feature_def Let_def)
    then show ?thesis by (simp add: record_props_def dict_get_default_def update_conv)
  next
    case False
    with assms p k h have f': "f' = ?props'" and nc: "''properties'' \<notin> fst ` set ?props'"
      by (auto simp: join_feature_def Let_def)
    from nc have "map_of ?props' ''properties'' = None" by (simp add: map_of_eq_None_iff)
    with f' show ?thesis by (simp add: record_props_def dict_get_default_def)
  qed
  with p k show ?thesis by blast
qed


text \<open>
  Claim C10. In the scraped-data merge and in the cross-encoding join, the value a
  primary record has (or lacks) under the secondary join-key field is the same after the
  join as before: the key field of the matched secondary record is not copied. Every
  other attribute of the matched secondary record that passes the loop's test (non-empty
  key and truthy value in the scraped-data merge, any attribute in the cross-encoding
  join) is copied, the secondary record being a dict with distinct keys.
\<close>

theorem join_key_not_copied:
  "(merge_scraped_data parcel_data scraped mf = Inr out \<longrightarrow>
      (\<exists>lk. scraped_lookup scraped mf Map.empty = Inr lk \<and>
         (\<forall>key item. lk key = Some item \<longrightarrow> item \<in> set scraped) \<and>
         (\<forall>i < length (features parcel_data). \<exists>props props'.
            dict_get_default (features parcel_data ! i) ''properties'' (PDict []) = PDict props \<and>
            dict_get (features out ! i) ''properties'' = PDict props' \<and>
            map_of props' mf = map_of props mf \<and>
            (\<forall>item. truthy (dict_get props mf) \<and> lk (key_norm (dict_get props mf)) = Some item \<and>
               distinct (map fst item) \<longrightarrow>
               (\<forall>(k, v) \<in> set item. k \<noteq> [] \<and> truthy v \<and> k \<noteq> mf \<longrightarrow> map_of props' k = Some v))))) \<and>
   (join_address_to_parcel geo parcels addresses pk ak = Inr doc \<longrightarrow>
      (\<exists>lk updated. address_lookup_of addresses ak Map.empty = Inr lk \<and>
         (\<forall>key aprops. lk key = Some aprops \<longrightarrow> (\<exists>a \<in> set addresses. record_props a = PDict aprops)) \<and>
         doc = written_document geo updated \<and> length updated = length parcels \<and>
         (\<forall>i < length parcels. \<exists>props key props'.
            record_props (parcels ! i) = PDict props \<and> map_of props pk = Some key \<and>
            record_props (updated ! i) = PDict props' \<and>
            map_of props' ak = map_of props ak \<and>
            (\<forall>aprops. lk (key_norm key) = Some aprops \<and> distinct (map fst aprops) \<longrightarrow>
               (\<forall>(k, v) \<in> set aprops. k \<noteq> ak \<longrightarrow> map_of props' k = Some v)))))"
proof (intro conjI impI)
  assume "merge_scraped_data parcel_data scraped mf = Inr out"
  then obtain lk merged where
    lk: "scraped_lookup scraped mf Map.empty = Inr lk" and
    m: "mapE (merge_scraped_feature lk mf) (features parcel_data) = Inr merged" and
    out: "features out = merged"
    by (auto simp: merge_scraped_data_def feature_collection_def split: sum.splits)
  have src: "\<forall>key item. lk key = Some item \<longrightarrow> item \<in> set scraped"
    using scraped_lookup_sound[OF lk] by auto
  have each: "\<forall>i < length (features parcel_data). \<exists>props props'.
            dict_get_default (features parcel_data ! i) ''properties'' (PDict []) = PDict props \<and>
            dict_get (features out ! i) ''properties'' = PDict props' \<and>
            map_of props' mf = map_of props mf \<and>
            (\<forall>item. truthy (dict_get props mf) \<and> lk (key_norm (dict_get props mf)) = Some item \<and>
               distinct (map fst item) \<longrightarrow>
               (\<forall>(k, v) \<in> set item. k \<noteq> [] \<and> truthy v \<and> k \<noteq> mf \<longrightarrow> map_of props' k = Some v))"
  proof (intro allI impI)
    fix i assume i: "i < length (features parcel_data)"
    from mapE_nth[OF m i] out
    have "merge_scraped_feature lk mf (features parcel_data ! i) = Inr (features out ! i)" by simp
    from merge_scraped_feature_props[OF this] obtain props where
      p: "dict_get_default (features parcel_data ! i) ''properties'' (PDict []) = PDict props" and
      p': "dict_get (features out ! i) ''properties'' = PDict
       (if truthy (dict_get props mf) then
          (case lk (key_norm (dict_get props mf)) of
             Some item \<Rightarrow> copy_items (scraped_cond mf) item props | None \<Rightarrow> props)
        else props)" by blast
    let ?props' = "if truthy (dict_get props mf) then
          (case lk (key_norm (dict_get props mf)) of
             Some item \<Rightarrow> copy_items (scraped_cond mf) item props | None \<Rightarrow> props)
        else props"
    have key: "map_of ?props' mf = map_of props mf"
      by (auto simp: scraped_cond_def intro: copy_items_unchanged split: option.splits)
    have copied: "\<forall>item. truthy (dict_get props mf) \<and> lk (key_norm (dict_get props mf)) = Some item \<and>
               distinct (map fst item) \<longrightarrow>
               (\<forall>(k, v) \<in> set item. k \<noteq> [] \<and> truthy v \<and> k \<noteq> mf \<longrightarrow> map_of ?props' k = Some v)"
      by (auto simp: scraped_cond_def intro!: copy_items_copied)
    from p p' key copied
    show "\<exists>props props'.
            dict_get_default (features parcel_data ! i) ''properties'' (PDict []) = PDict props \<and>
            dict_get (features out ! i) ''properties'' = PDict props' \<and>
            map_of props' mf = map_of props mf \<and>
            (\<forall>item. truthy (dict_get props mf) \<and> lk (key_norm (dict_get props mf)) = Some item \<and>
               distinct (map fst item) \<longrightarrow>
               (\<forall>(k, v) \<in> set item. k \<noteq> [] \<and> truthy v \<and> k \<noteq> mf \<longrightarrow> map_of props' k = Some v))"
      by blast
  qed
  from lk src each
  show "\<exists>lk. scraped_lookup scraped mf Map.empty = Inr lk \<and>
         (\<forall>key item. lk key = Some item \<longrightarrow> item \<in> set scraped) \<and>
         (\<forall>i < length (features parcel_data). \<exists>props props'.
            dict_get_default (features parcel_data ! i) ''properties'' (PDict []) = PDict props \<and>
            dict_get (features out ! i) ''properties'' = PDict props' \<and>
            map_of props' mf = map_of props mf \<and>
            (\<forall>item. truthy (dict_get props mf) \<and> lk (key_norm (dict_get props mf)) = Some item \<and>
               distinct (map fst item) \<longrightarrow>
               (\<forall>(k, v) \<in> set item. k \<noteq> [] \<and> truthy v \<and> k \<noteq> mf \<longrightarrow> map_of props' k = Some v)))"
    by blast
next
  assume "join_address_to_parcel geo parcels addresses pk ak = Inr doc"
  then obtain lk upd where
    lk: "address_lookup_of addresses ak Map.empty = Inr lk" and
    m: "mapE (join_feature lk pk ak) parcels = Inr upd" and
    nc: "\<forall>u \<in> set upd. \<not> snd u" and
    doc: "doc = written_document geo (map fst upd)"
    by (auto simp: join_address_to_parcel_def join_records_def split: sum.splits if_splits)
  have src: "\<forall>key aprops. lk key = Some aprops \<longrightarrow> (\<exists>a \<in> set addresses. record_props a = PDict aprops)"
    using address_lookup_of_sound[OF lk] by auto
  have len: "length (map fst upd) = length parcels" using mapE_length[OF m] by simp
  have each: "\<forall>i < length parcels. \<exists>props key props'.
            record_props (parcels ! i) = PDict props \<and> map_of props pk = Some key \<and>
            record_props (map fst upd ! i) = PDict props' \<and>
            map_of props' ak = map_of props ak \<and>
            (\<forall>aprops. lk (key_norm key) = Some aprops \<and> distinct (map fst aprops) \<longrightarrow>
               (\<forall>(k, v) \<in> set aprops. k \<noteq> ak \<longrightarrow> map_of props' k = Some v))"
  proof (intro allI impI)
    fix i assume i: "i < length parcels"
    with mapE_length[OF m] have iu: "i < length upd" by simp
    with nc have "\<not> snd (upd ! i)" by simp
    with mapE_nth[OF m i]
    have "join_feature lk pk ak (parcels ! i) = Inr (fst (upd ! i), False)"
      by (cases "upd ! i") simp
    from join_feature_props[OF this] obtain props key where
      p: "record_props (parcels ! i) = PDict props" and k: "map_of props pk = Some key" and
      p': "record_props (fst (upd ! i)) = PDict
       (case lk (key_norm key) of
          Some aprops \<Rightarrow> copy_items (not_address_key ak) aprops props
        | None \<Rightarrow> props)" by blast
    let ?props' = "case lk (key_norm key) of
          Some aprops \<Rightarrow> copy_items (not_address_key ak) aprops props
        | None \<Rightarrow> props"
    have key: "map_of ?props' ak = map_of props ak"
      by (auto simp: not_address_key_def intro: copy_items_unchanged split: option.splits)
    have copied: "\<forall>aprops. lk (key_norm key) = Some aprops \<and> distinct (map fst aprops) \<longrightarrow>
               (\<forall>(k, v) \<in> set aprops. k \<noteq> ak \<longrightarrow> map_of ?props' k = Some v)"
      by (auto simp: not_address_key_def intro!: copy_items_copied)
    from p k p' key copied iu
    show "\<exists>props key props'.
            record_props (parcels ! i) = PDict props \<and> map_of props pk = Some key \<and>
            record_props (map fst upd ! i) = PDict props' \<and>
            map_of props' ak = map_of props ak \<and>
            (\<forall>aprops. lk (key_norm key) = Some aprops \<and> distinct (map fst aprops) \<longrightarrow>
               (\<forall>(k, v) \<in> set aprops. k \<noteq> ak \<longrightarrow> map_of props' k = Some v))"
      by (simp only: nth_map) blast
  qed
  from lk src doc len each
  show "\<exists>lk updated. address_lookup_of addresses ak Map.empty = Inr lk \<and>
         (\<forall>key aprops. lk key = Some aprops \<longrightarrow> (\<exists>a \<in> set addresses. record_props a = PDict aprops)) \<and>
         doc = written_document geo updated \<and> length updated = length parcels \<and>
         (\<forall>i < length parcels. \<exists>props key props'.
            record_props (parcels ! i) = PDict props \<and> map_of props pk = Some key \<and>
            record_props (updated ! i) = PDict props' \<and>
            map_of props' ak = map_of props ak \<and>
            (\<forall>aprops. lk (key_norm key) = Some aprops \<and> distinct (map fst aprops) \<longrightarrow>
               (\<forall>(k, v) \<in> set aprops. k \<noteq> ak \<longrightarrow> map_of props' k = Some v)))"
    by blast
qed


lemma ex_join_address_to_parcel:
  "join_address_to_parcel True ex_acct_parcels ex_acct_addresses ''RWACCT'' ''Account #'' =
     Inr (written_document True ex_acct_joined)"
  by (simp add: join_address_to_parcel_def ex_join_records)

theorem join_key_not_copied_witness:
  "merge_scraped_data ex_primary ex_scraped ''PIN'' = Inr ex_scraped_merged \<and>
   join_address_to_parcel True ex_acct_parcels ex_acct_addresses ''RWACCT'' ''Account #'' =
     Inr (written_document True ex_acct_joined) \<and>
   (\<exists>lk. scraped_lookup ex_scraped ''PIN'' Map.empty = Inr lk \<and>
      (\<forall>key item. lk key = Some item \<longrightarrow> item \<in> set ex_scraped) \<and>
      (\<forall>i < length (features ex_primary). \<exists>props props'.
         dict_get_default (features ex_primary ! i) ''properties'' (PDict []) = PDict props \<and>
         dict_get (features ex_scraped_merged ! i) ''properties'' = PDict props' \<and>
         map_of props' ''PIN'' = map_of props ''PIN'' \<and>
         (\<forall>item. truthy (dict_get props ''PIN'') \<and> lk (key_norm (dict_get props ''PIN'')) = Some item \<and>
            distinct (map fst item) \<longrightarrow>
            (\<forall>(k, v) \<in> set item. k \<noteq> [] \<and> truthy v \<and> k \<noteq> ''PIN'' \<longrightarrow> map_of props' k = Some v)))) \<and>
   (\<exists>lk updated. address_lookup_of ex_acct_addresses ''Account #'' Map.empty = Inr lk \<and>
      (\<forall>key aprops. lk key = Some aprops \<longrightarrow> (\<exists>a \<in> set ex_acct_addresses. record_props a = PDict aprops)) \<and>
      written_document True ex_acct_joined = written_document True updated \<and>
      length updated = length ex_acct_parcels \<and>
      (\<forall>i < length ex_acct_parcels. \<exists>props key props'.
         record_props (ex_acct_parcels ! i) = PDict props \<and> map_of props ''RWACCT'' = Some key \<and>
         record_props (updated ! i) = PDict props' \<and>
         map_of props' ''Account #'' = map_of props ''Account #'' \<and>
         (\<forall>aprops. lk (key_norm key) = Some aprops \<and> distinct (map fst aprops) \<longrightarrow>
            (\<forall>(k, v) \<in> set aprops. k \<noteq> ''Account #'' \<longrightarrow> map_of props' k = Some v))))"
  using join_key_not_copied[where parcel_data = ex_primary and scraped = ex_scraped and mf = "''PIN''"
      and out = ex_scraped_merged and geo = True and parcels = ex_acct_parcels
      and addresses = ex_acct_addresses and pk = "''RWACCT''" and ak = "''Account #''"
      and doc = "written_document True ex_acct_joined"]
    ex_merge_scraped ex_join_address_to_parcel
  by blast


section \<open>Properties of the coordinate system detection\<close>

lemma first_point_Polygon:
  "map_of geo ''type'' = Some (PStr ''Polygon'') \<Longrightarrow>
   map_of geo ''coordinates'' = Some (PList (PList (p # pts) # rings)) \<Longrightarrow>
   first_point (PDict geo) = Inr p"
  by (simp add: first_point_def)

lemma first_point_MultiPolygon:
  "map_of geo ''type'' = Some (PStr ''MultiPolygon'') \<Longrightarrow>
   map_of geo ''coordinates'' = Some (PList (PList (PList (p # pts) # rings) # polys)) \<Longrightarrow>
   first_point (PDict geo) = Inr p"
  by (simp add: first_point_def)

lemma first_point_other:
  "map_of geo ''type'' = Some t \<Longrightarrow> t \<noteq> PStr ''Polygon'' \<Longrightarrow> t \<noteq> PStr ''MultiPolygon'' \<Longrightarrow>
   first_point (PDict geo) = Inr PNone"
  by (simp add: first_point_def)

lemma classify_point_large:
  "num_of x = Some xr \<Longrightarrow> num_of y = Some yr \<Longrightarrow> 1000000 < xr \<or> 1000000 < yr \<Longrightarrow>
   classify_point x y = Inr ''EPSG:3739''"
  by (auto simp: classify_point_def)

lemma classify_point_degrees:
  "num_of x = Some xr \<Longrightarrow> num_of y = Some yr \<Longrightarrow>
   - 180 \<le> xr \<Longrightarrow> xr \<le> 180 \<Longrightarrow> - 90 \<le> yr \<Longrightarrow> yr \<le> 90 \<Longrightarrow>
   classify_point x y = Inr ''EPSG:4326''"
  by (simp add: classify_point_def)

lemma detect_by_first_point:
  assumes "crs g = None" and "first_valid_feature (features g) = Inr (Some f)"
    and "first_point (dict_get f ''geometry'') = Inr (PList (x # y # zs))"
  shows "detect_coordinate_system g = classify_point x y"
proof -
  from assms(2) have "features g \<noteq> []" by auto
  with assms show ?thesis
    by (simp add: detect_coordinate_system_def detect_from_coordinates_def)
qed

lemma detect_no_point:
  assumes "crs g = None" and "first_valid_feature (features g) = Inr (Some f)"
    and "first_point (dict_get f ''geometry'') = Inr PNone"
  shows "detect_coordinate_system g = Inr ''EPSG:4326''"
proof -
  from assms(2) have "features g \<noteq> []" by auto
  with assms show ?thesis
    by (simp add: detect_coordinate_system_def detect_from_coordinates_def)
qed


text \<open>
  Claim C2, as amended. For a collection without a \<open>crs\<close> member whose first feature
  with coordinates is a Polygon or a MultiPolygon, let (x, y) be the first point of its
  first ring. If x or y is greater than 1,000,000 (as a signed value), detection returns
  the state-plane system EPSG:3739; if x is in [-180,180] and y in [-90,90], it
  returns EPSG:4326. When the first feature with coordinates has any other geometry
  type, detection returns EPSG:4326.
\<close>

theorem detect_coordinate_system_heuristic:
  assumes "crs g = None"
    and "first_valid_feature (features g) = Inr (Some f)"
    and "dict_get f ''geometry'' = PDict geo"
  shows "(((map_of geo ''type'' = Some (PStr ''Polygon'') \<and>
            map_of geo ''coordinates'' = Some (PList (PList (PList (x # y # zs) # pts) # rings))) \<or>
           (map_of geo ''type'' = Some (PStr ''MultiPolygon'') \<and>
            map_of geo ''coordinates'' =
              Some (PList (PList (PList (PList (x # y # zs) # pts) # rings) # polys)))) \<and>
          num_of x = Some xr \<and> num_of y = Some yr \<longrightarrow>
          (1000000 < xr \<or> 1000000 < yr \<longrightarrow> detect_coordinate_system g = Inr ''EPSG:3739'') \<and>
          (- 180 \<le> xr \<and> xr \<le> 180 \<and> - 90 \<le> yr \<and> yr \<le> 90 \<longrightarrow>
             detect_coordinate_system g = Inr ''EPSG:4326'')) \<and>
         (\<forall>t. map_of geo ''type'' = Some t \<and> t \<noteq> PStr ''Polygon'' \<and> t \<noteq> PStr ''MultiPolygon'' \<longrightarrow>
            detect_coordinate_system g = Inr ''EPSG:4326'')"
proof (intro conjI impI allI)
  assume h: "((map_of geo ''type'' = Some (PStr ''Polygon'') \<and>
            map_of geo ''coordinates'' = Some (PList (PList (PList (x # y # zs) # pts) # rings))) \<or>
           (map_of geo ''type'' = Some (PStr ''MultiPolygon'') \<and>
            map_of geo ''coordinates'' =
              Some (PList (PList (PList (PList (x # y # zs) # pts) # rings) # polys)))) \<and>
          num_of x = Some xr \<and> num_of y = Some yr"
  then have "first_point (PDict geo) = Inr (PList (x # y # zs))"
    using first_point_Polygon first_point_MultiPolygon by blast
  with assms have d: "detect_coordinate_system g = classify_point x y"
    by (simp add: detect_by_first_point)
  {
    assume "1000000 < xr \<or> 1000000 < yr"
    with h d show "detect_coordinate_system g = Inr ''EPSG:3739''"
      by (simp add: classify_point_large)
  }
  {
    assume "- 180 \<le> xr \<and> xr \<le> 180 \<and> - 90 \<le> yr \<and> yr \<le> 90"
    with h d show "detect_coordinate_system g = Inr ''EPSG:4326''"
      by (simp add: classify_point_degrees)
  }
next
  fix t
  assume "map_of geo ''type'' = Some t \<and> t \<noteq> PStr ''Polygon'' \<and> t \<noteq> PStr ''MultiPolygon''"
  then have "first_point (PDict geo) = Inr PNone" by (simp add: first_point_other)
  with assms show "detect_coordinate_system g = Inr ''EPSG:4326''"
    by (simp add: detect_no_point)
qed

theorem detect_coordinate_system_heuristic_witness:
  "crs (polygon_at 2000000 5) = None \<and>
   first_valid_feature (features (polygon_at 2000000 5)) = Inr (Some (features (polygon_at 2000000 5) ! 1)) \<and>
   num_of (PInt 2000000) = Some 2000000 \<and> num_of (PInt 5) = Some 5 \<and>
   detect_coordinate_system (polygon_at 2000000 5) = Inr ''EPSG:3739'' \<and>
   crs (polygon_at (- 105) 41) = None \<and>
   first_valid_feature (features (polygon_at (- 105) 41)) = Inr (Some (features (polygon_at (- 105) 41) ! 1)) \<and>
   detect_coordinate_system (polygon_at (- 105) 41) = Inr ''EPSG:4326''"
proof -
  let ?g = "polygon_at 2000000 5"
  let ?geo = "[(''type'', PStr ''Polygon''),
          (''coordinates'', PList [PList [PList [PInt 2000000, PInt 5], PList [PInt (2000000 + 1), PInt 5],
             PList [PInt 2000000, PInt (5 + 1)], PList [PInt 2000000, PInt 5]]])]"
  have a: "crs ?g = None" by (simp add: polygon_at_def feature_collection_def)
  have b: "first_valid_feature (features ?g) = Inr (Some (features ?g ! 1))"
    by (simp add: polygon_at_def feature_collection_def has_coordinates_def dict_get_def
        dict_get_default_def)
  have c: "dict_get (features ?g ! 1) ''geometry'' = PDict ?geo"
    by (simp add: polygon_at_def feature_collection_def dict_get_def dict_get_default_def)
  have d: "map_of ?geo ''type'' = Some (PStr ''Polygon'') \<and>
      map_of ?geo ''coordinates'' = Some (PList (PList (PList (PInt 2000000 # PInt 5 # []) #
        [PList [PInt (2000000 + 1), PInt 5], PList [PInt 2000000, PInt (5 + 1)],
         PList [PInt 2000000, PInt 5]]) # []))" by simp
  have n: "num_of (PInt 2000000) = Some 2000000" "num_of (PInt 5) = Some 5" by simp_all
  have big: "(1000000::rat) < 2000000 \<or> (1000000::rat) < 5" by simp
  note T = detect_coordinate_system_heuristic[OF a b c, THEN conjunct1, rule_format]
  have r1: "detect_coordinate_system ?g = Inr ''EPSG:3739''"
    by (rule T[where xr = 2000000 and yr = 5, THEN conjunct1, rule_format]) (use d n big in blast)+
  let ?h = "polygon_at (- 105) 41"
  let ?geo2 = "[(''type'', PStr ''Polygon''),
          (''coordinates'', PList [PList [PList [PInt (- 105), PInt 41], PList [PInt (- 105 + 1), PInt 41],
             PList [PInt (- 105), PInt (41 + 1)], PList [PInt (- 105), PInt 41]]])]"
  have a2: "crs ?h = None" by (simp add: polygon_at_def feature_collection_def)
  have b2: "first_valid_feature (features ?h) = Inr (Some (features ?h ! 1))"
    by (simp add: polygon_at_def feature_collection_def has_coordinates_def dict_get_def
        dict_get_default_def)
  have c2: "dict_get (features ?h ! 1) ''geometry'' = PDict ?geo2"
    by (simp add: polygon_at_def feature_collection_def dict_get_def dict_get_default_def)
  have d2: "map_of ?geo2 ''type'' = Some (PStr ''Polygon'') \<and>
      map_of ?geo2 ''coordinates'' = Some (PList (PList (PList (PInt (- 105) # PInt 41 # []) #
        [PList [PInt (- 105 + 1), PInt 41], PList [PInt (- 105), PInt (41 + 1)],
         PList [PInt (- 105), PInt 41]]) # []))" by simp
  have n2: "num_of (PInt (- 105)) = Some (- 105)" "num_of (PInt 41) = Some 41" by simp_all
  have box: "- 180 \<le> (- 105::rat) \<and> (- 105::rat) \<le> 180 \<and> - 90 \<le> (41::rat) \<and> (41::rat) \<le> 90"
    by simp
  note T2 = detect_coordinate_system_heuristic[OF a2 b2 c2, THEN conjunct1, rule_format]
  have r2: "detect_coordinate_system ?h = Inr ''EPSG:4326''"
    by (rule T2[where xr = "- 105" and yr = 41, THEN conjunct2, rule_format]) (use d2 n2 box in blast)+
  from a b n r1 a2 b2 r2 show ?thesis by simp
qed

text \<open>
  The claim as stated fails on magnitudes: a polygon whose first point is
  (-2000000, 5) has an ordinate of magnitude above 1,000,000 and is detected as
  EPSG:4326, because the test is \<open>x > 1000000 or y > 1000000\<close> on the signed values. A
  Point geometry with two large ordinates is detected as EPSG:4326 too: only polygons
  are inspected.
\<close>

theorem detect_coordinate_system_magnitude_counterexample:
  "crs (polygon_at (- 2000000) 5) = None \<and>
   first_valid_feature (features (polygon_at (- 2000000) 5)) =
     Inr (Some (features (polygon_at (- 2000000) 5) ! 1)) \<and>
   first_point (dict_get (features (polygon_at (- 2000000) 5) ! 1) ''geometry'') =
     Inr (PList [PInt (- 2000000), PInt 5]) \<and>
   1000000 < \<bar>- 2000000 :: int\<bar> \<and>
   detect_coordinate_system (polygon_at (- 2000000) 5) = Inr ''EPSG:4326'' \<and>
   crs ex_far_point = None \<and>
   first_valid_feature (features ex_far_point) = Inr (Some (features ex_far_point ! 0)) \<and>
   dict_get (features ex_far_point ! 0) ''geometry'' = point_geom 2000000 5000000 \<and>
   detect_coordinate_system ex_far_point = Inr ''EPSG:4326''"
  by code_simp


section \<open>Properties of the composite mailing address\<close>

lemma strip_where_append_all:
  assumes "\<forall>c \<in> set w. P c"
  shows "strip_where P (u @ w) = strip_where P u"
proof (cases "\<forall>c \<in> set u. P c")
  case True
  with assms have "dropWhile P (u @ w) = []" "dropWhile P u = []" by auto
  then show ?thesis by (simp only: strip_where_def)
next
  case False
  then obtain x where "x \<in> set u" "\<not> P x" by blast
  then have d: "dropWhile P (u @ w) = dropWhile P u @ w" by (rule dropWhile_append1)
  from assms have "dropWhile P (rev w @ rev (dropWhile P u)) = dropWhile P (rev (dropWhile P u))"
    by (intro dropWhile_append2) simp
  with d show ?thesis by (simp add: strip_where_def)
qed
















section \<open>Properties of the global identifiers\<close>


















end
